theory Spec2Isabelle
  imports Complex_Main "HOL-Library.Word"
begin

unbundle bit_operations_syntax

section \<open>The output sink: the interface of print.h\<close>

text \<open>
  report.c writes to the serial line only through the functions declared in print.h. The
  bodies of those functions (print.c) are not part of the sources, so the effect of a
  reporting function is modelled as the sequence of calls it makes on this interface, in
  order, and the bytes of a call sequence are obtained from a model of each print function
  (section ``The bytes of a call''). \<open>delay_ms\<close> is recorded in the same sequence: it writes
  no byte.
\<close>

type_synonym uint8_t = "8 word"
type_synonym int8_t = "8 word"
type_synonym int32_t = "32 word"

datatype 'f call =
    PgmString string          \<comment> \<open>\<open>printPgmString(PSTR(s))\<close>\<close>
  | UnsignedBase10 uint8_t    \<comment> \<open>\<open>print_unsigned_base10(uint8_t n)\<close>, print.h:34\<close>
  | Float 'f                  \<comment> \<open>\<open>printFloat(float n)\<close>\<close>
  | Base2 nat uint8_t         \<comment> \<open>\<open>print_base2(unsigned long n, uint8_t size)\<close>\<close>
  | Integer int               \<comment> \<open>\<open>printInteger(long n)\<close>\<close>
  | DelayMs nat               \<comment> \<open>\<open>delay_ms(ms)\<close>\<close>

type_synonym 'f serial = "'f call list"

definition CRLF :: string where
  "CRLF = [CHR 0x0D, CHR 0x0A]"

definition printPgmString :: "string \<Rightarrow> 'f serial \<Rightarrow> 'f serial" where
  "printPgmString s out = out @ [PgmString s]"

definition print_unsigned_base10 :: "uint8_t \<Rightarrow> 'f serial \<Rightarrow> 'f serial" where
  "print_unsigned_base10 n out = out @ [UnsignedBase10 n]"

definition printFloat :: "'f \<Rightarrow> 'f serial \<Rightarrow> 'f serial" where
  "printFloat x out = out @ [Float x]"


definition printInteger :: "int \<Rightarrow> 'f serial \<Rightarrow> 'f serial" where
  "printInteger n out = out @ [Integer n]"

definition delay_ms :: "nat \<Rightarrow> 'f serial \<Rightarrow> 'f serial" where
  "delay_ms ms out = out @ [DelayMs ms]"

section \<open>The bytes of a call\<close>

text \<open>
  Modelled from the spec: the body of \<open>print_unsigned_base10\<close> (print.c) is missing. The
  spec (4.1) has it render a non-negative integer in base 10 with no leading zeros, \<open>0\<close> for
  zero, by repeated remainder extraction into a local buffer that is then emitted in
  reverse. \<open>digit_buf\<close> is that buffer, least significant digit first.
\<close>

fun digit_buf :: "nat \<Rightarrow> string" where
  "digit_buf n = (if n = 0 then [] else char_of (48 + n mod 10) # digit_buf (n div 10))"

declare digit_buf.simps [simp del]

definition unsigned_base10_bytes :: "nat \<Rightarrow> string" where
  "unsigned_base10_bytes n = (if n = 0 then ''0'' else rev (digit_buf n))"

text \<open>
  Modelled from the spec: the body of \<open>printInteger\<close> (print.c) is missing. The spec (4.1):
  as the unsigned rendering, preceded by \<open>-\<close> if negative.
\<close>

definition integer_bytes :: "int \<Rightarrow> string" where
  "integer_bytes n = (if n < 0 then ''-'' else []) @ unsigned_base10_bytes (nat \<bar>n\<bar>)"

text \<open>
  Modelled from the spec: the body of \<open>print_base2\<close> (print.c) is missing. The spec (4.1):
  exactly \<open>size\<close> binary digits, most significant bit first, no separators.
\<close>

definition base2_bytes :: "nat \<Rightarrow> nat \<Rightarrow> string" where
  "base2_bytes n sz = map (\<lambda>k. if bit n k then CHR ''1'' else CHR ''0'') (rev [0..<sz])"

text \<open>
  The bytes written by one call, and by a sequence of calls. The rendering \<open>pf\<close> of
  \<open>printFloat\<close> is a parameter: the float type is abstract in the model of report.c.
\<close>

fun call_bytes :: "('f \<Rightarrow> string) \<Rightarrow> 'f call \<Rightarrow> string" where
  "call_bytes pf (PgmString s) = s"
| "call_bytes pf (UnsignedBase10 n) = unsigned_base10_bytes (unat n)"
| "call_bytes pf (Float x) = pf x"
| "call_bytes pf (Base2 n sz) = base2_bytes n (unat sz)"
| "call_bytes pf (Integer n) = integer_bytes n"
| "call_bytes pf (DelayMs ms) = []"

definition bytes :: "('f \<Rightarrow> string) \<Rightarrow> 'f serial \<Rightarrow> string" where
  "bytes pf out = concat (map (call_bytes pf) out)"

text \<open>Reading a string of decimal digits back as a number.\<close>

definition decimal_value :: "string \<Rightarrow> nat" where
  "decimal_value s = foldl (\<lambda>a c. 10 * a + (of_char c - 48)) 0 s"

section \<open>report.c: status and alarm messages\<close>

text \<open>
  The status codes are macros of report.h, which is not part of the sources: they are
  parameters of the model. A C \<open>switch\<close> compares the promoted \<open>int\<close> value of its operand
  with each \<open>int\<close> case label.
\<close>

record status_codes =
  STATUS_EXPECTED_COMMAND_LETTER :: int
  STATUS_BAD_NUMBER_FORMAT :: int
  STATUS_INVALID_STATEMENT :: int
  STATUS_NEGATIVE_VALUE :: int
  STATUS_SETTING_DISABLED :: int
  STATUS_SETTING_STEP_PULSE_MIN :: int
  STATUS_SETTING_READ_FAIL :: int
  STATUS_IDLE_ERROR :: int
  STATUS_ALARM_LOCK :: int
  STATUS_SOFT_LIMIT_ERROR :: int
  STATUS_OVERFLOW :: int
  STATUS_GCODE_MODAL_GROUP_VIOLATION :: int
  STATUS_GCODE_UNSUPPORTED_COMMAND :: int
  STATUS_GCODE_UNDEFINED_FEED_RATE :: int

definition report_status_message :: "status_codes \<Rightarrow> uint8_t \<Rightarrow> 'f serial \<Rightarrow> 'f serial" where
  "report_status_message C status_code out =
    (if status_code = 0 then printPgmString (''ok'' @ CRLF) out
     else
       let out = printPgmString ''error: '' out;
           c = uint status_code;
           out =
            (if c = STATUS_EXPECTED_COMMAND_LETTER C then
               printPgmString ''Expected command letter'' out
             else if c = STATUS_BAD_NUMBER_FORMAT C then
               printPgmString ''Bad number format'' out
             else if c = STATUS_INVALID_STATEMENT C then
               printPgmString ''Invalid statement'' out
             else if c = STATUS_NEGATIVE_VALUE C then
               printPgmString ''Value < 0'' out
             else if c = STATUS_SETTING_DISABLED C then
               printPgmString ''Setting disabled'' out
             else if c = STATUS_SETTING_STEP_PULSE_MIN C then
               printPgmString ''Value < 3 usec'' out
             else if c = STATUS_SETTING_READ_FAIL C then
               printPgmString ''EEPROM read fail. Using defaults'' out
             else if c = STATUS_IDLE_ERROR C then
               printPgmString ''Not idle'' out
             else if c = STATUS_ALARM_LOCK C then
               printPgmString ''Alarm lock'' out
             else if c = STATUS_SOFT_LIMIT_ERROR C then
               printPgmString ''Homing not enabled'' out
             else if c = STATUS_OVERFLOW C then
               printPgmString ''Line overflow'' out
             else if c = STATUS_GCODE_MODAL_GROUP_VIOLATION C then
               printPgmString ''Modal group violation'' out
             else if c = STATUS_GCODE_UNSUPPORTED_COMMAND C then
               printPgmString ''Unsupported command'' out
             else if c = STATUS_GCODE_UNDEFINED_FEED_RATE C then
               printPgmString ''Undefined feed rate'' out
             else
               print_unsigned_base10 status_code (printPgmString ''Invalid gcode ID:'' out))
       in printPgmString CRLF out)"

text \<open>
  The closed set of known status codes with their phrases, as a table: the case labels of
  the \<open>switch\<close> in \<open>report_status_message\<close>, in source order.
\<close>

definition status_phrases :: "status_codes \<Rightarrow> (int \<times> string) list" where
  "status_phrases C =
    [(STATUS_EXPECTED_COMMAND_LETTER C, ''Expected command letter''),
     (STATUS_BAD_NUMBER_FORMAT C, ''Bad number format''),
     (STATUS_INVALID_STATEMENT C, ''Invalid statement''),
     (STATUS_NEGATIVE_VALUE C, ''Value < 0''),
     (STATUS_SETTING_DISABLED C, ''Setting disabled''),
     (STATUS_SETTING_STEP_PULSE_MIN C, ''Value < 3 usec''),
     (STATUS_SETTING_READ_FAIL C, ''EEPROM read fail. Using defaults''),
     (STATUS_IDLE_ERROR C, ''Not idle''),
     (STATUS_ALARM_LOCK C, ''Alarm lock''),
     (STATUS_SOFT_LIMIT_ERROR C, ''Homing not enabled''),
     (STATUS_OVERFLOW C, ''Line overflow''),
     (STATUS_GCODE_MODAL_GROUP_VIOLATION C, ''Modal group violation''),
     (STATUS_GCODE_UNSUPPORTED_COMMAND C, ''Unsupported command''),
     (STATUS_GCODE_UNDEFINED_FEED_RATE C, ''Undefined feed rate'')]"

text \<open>
  The alarm codes are macros of report.h as well. \<open>alarm_code\<close> is an \<open>int8_t\<close>: the
  \<open>switch\<close> compares its signed value.
\<close>

record alarm_codes =
  ALARM_LIMIT_ERROR :: int
  ALARM_ABORT_CYCLE :: int
  ALARM_PROBE_FAIL :: int

definition report_alarm_message :: "alarm_codes \<Rightarrow> int8_t \<Rightarrow> 'f serial \<Rightarrow> 'f serial" where
  "report_alarm_message A alarm_code out =
    (let out = printPgmString ''ALARM: '' out;
         c = sint alarm_code;
         out =
          (if c = ALARM_LIMIT_ERROR A then printPgmString ''Hard/soft limit'' out
           else if c = ALARM_ABORT_CYCLE A then printPgmString ''Abort during cycle'' out
           else if c = ALARM_PROBE_FAIL A then printPgmString ''Probe fail'' out
           else out);
         out = printPgmString CRLF out
     in delay_ms 500 out)"

section \<open>Floating-point values and compile-time configuration\<close>

text \<open>
  report.c computes on C \<open>float\<close> values. The model is generic in the type \<open>'f\<close> of
  floats and in the arithmetic on it: every operation the source applies is a field of
  \<open>float_ops\<close>, so the results below hold for IEEE single precision as for any other
  arithmetic. \<open>f_of_int\<close> is the conversion of an integer operand to \<open>float\<close>.
\<close>

record 'f float_ops =
  f_of_int :: "int \<Rightarrow> 'f"
  f_add :: "'f \<Rightarrow> 'f \<Rightarrow> 'f"
  f_sub :: "'f \<Rightarrow> 'f \<Rightarrow> 'f"
  f_mul :: "'f \<Rightarrow> 'f \<Rightarrow> 'f"
  f_div :: "'f \<Rightarrow> 'f \<Rightarrow> 'f"
  f_neg :: "'f \<Rightarrow> 'f"

text \<open>
  Macros of headers that are not part of the sources (nuts_bolts.h, settings.h, config.h),
  taken as parameters: the inch conversion factor, the masks of the feature flags (\<open>int\<close>
  constants), and whether \<open>USE_LINE_NUMBERS\<close> is defined. With them, what the macro
  \<open>print_base2(n)\<close> of print.h reads off the declarations: \<open>sizeof\<close>, in bytes, of the type
  settings.h gives to each of the three mask fields, and the number of bits of the
  \<open>unsigned long\<close> parameter the value is converted to.
\<close>

record 'f config =
  INCH_PER_MM :: 'f
  BITFLAG_REPORT_INCHES :: nat
  BITFLAG_AUTO_START :: nat
  BITFLAG_INVERT_ST_ENABLE :: nat
  BITFLAG_INVERT_LIMIT_PINS :: nat
  BITFLAG_SOFT_LIMIT_ENABLE :: nat
  BITFLAG_HARD_LIMIT_ENABLE :: nat
  BITFLAG_HOMING_ENABLE :: nat
  USE_LINE_NUMBERS :: bool
  sizeof_step_invert_mask :: nat
  sizeof_dir_invert_mask :: nat
  sizeof_homing_dir_mask :: nat
  ULONG_BITS :: nat

text \<open>
  Modelled from the spec: the axis count \<open>N_AXIS\<close> and the axis identifiers are macros of
  nuts_bolts.h, which is missing. The spec (3) indexes the per-axis arrays by the axis
  identifiers X, Y, Z, with array length the compile-time axis count; its end-to-end
  example has three values per vector, and \<open>report_grbl_settings\<close> prints the X, Y and Z
  entries in this order.
\<close>

definition N_AXIS :: nat where "N_AXIS = 3"

text \<open>
  Modelled from the spec: \<open>SETTING_INDEX_NCOORD\<close> is a macro of settings.h, which is
  missing. The spec (4.3, 6) has one coordinate line per slot, the slots 0 to 5 shown as
  G54 to G59 and the two special slots 6 and 7 shown as G28 and G30: the last slot is 7.
\<close>

definition SETTING_INDEX_NCOORD :: nat where "SETTING_INDEX_NCOORD = 7"

text \<open>
  Modelled from the spec: \<open>bit_istrue\<close> is a macro of nuts_bolts.h, which is missing. The
  spec speaks of a flag of the feature-flags bitmask being set: the test of the bits
  selected by the mask, with the C truth value 1 or 0 as its result (report.c prints it
  as a ``bool'').
\<close>

definition bit_istrue :: "nat \<Rightarrow> nat \<Rightarrow> int" where
  "bit_istrue x m = (if x AND m \<noteq> 0 then 1 else 0)"

section \<open>The state read by report.c\<close>

text \<open>
  The struct declarations (settings.h, gcode.h, system.h, planner.h) are not part of the
  sources. The records hold the fields report.c reads. Per-axis arrays are lists of length
  \<open>N_AXIS\<close>. The types of the integer settings are not known: each such field holds its
  stored value as a natural number, whatever the width of its type, and the conversions of
  a call that prints it are written out where report.c makes the call.
\<close>

record 'f settings_t =
  steps_per_mm :: "'f list"
  max_rate :: "'f list"
  acceleration :: "'f list"
  max_travel :: "'f list"
  pulse_microseconds :: nat
  step_invert_mask :: nat
  dir_invert_mask :: nat
  stepper_idle_lock_time :: nat
  junction_deviation :: 'f
  arc_tolerance :: 'f
  decimal_places :: nat
  flags :: nat
  homing_dir_mask :: nat
  homing_feed_rate :: 'f
  homing_seek_rate :: 'f
  homing_debounce_delay :: nat
  homing_pulloff :: 'f

record 'f parser_state_t =
  coord_system :: "'f list"
  coord_offset :: "'f list"

record system_t =
  state :: uint8_t
  position :: "int32_t list"
  probe_position :: "int32_t list"

record plan_block_t =
  line_number :: int32_t

text \<open>The machine states are macros of system.h: parameters, as the status codes are.\<close>

record state_codes =
  STATE_IDLE :: int
  STATE_QUEUED :: int
  STATE_CYCLE :: int
  STATE_HOLD :: int
  STATE_HOMING :: int
  STATE_ALARM :: int
  STATE_CHECK_MODE :: int

section \<open>report.c: the settings dump\<close>


text \<open>The values handed to \<open>printFloat\<close> and to \<open>print_unsigned_base10\<close>, in order.\<close>

fun printed_floats :: "'f serial \<Rightarrow> 'f list" where
  "printed_floats [] = []"
| "printed_floats (Float x # cs) = x # printed_floats cs"
| "printed_floats (c # cs) = printed_floats cs"









text \<open>A list with a separator between consecutive elements, and none after the last.\<close>

fun separated :: "'a \<Rightarrow> 'a list \<Rightarrow> 'a list" where
  "separated sep [] = []"
| "separated sep [x] = [x]"
| "separated sep (x # y # ys) = x # sep # separated sep (y # ys)"

section \<open>report.c: probe and coordinate parameters\<close>

text \<open>
  A loop \<open>for (i=0; i< N_AXIS; i++)\<close> is a \<open>fold\<close> of its body over the indices
  \<open>[0..<N_AXIS]\<close>. The test of the report-inches flag is written once.
\<close>

definition report_inches :: "'f config \<Rightarrow> 'f settings_t \<Rightarrow> bool" where
  "report_inches K settings = (bit_istrue (flags settings) (BITFLAG_REPORT_INCHES K) \<noteq> 0)"

definition probe_step ::
  "'f float_ops \<Rightarrow> 'f config \<Rightarrow> 'f settings_t \<Rightarrow> system_t \<Rightarrow> nat \<Rightarrow> 'f serial \<Rightarrow> 'f serial" where
  "probe_step F K settings sys i out =
    (let p = f_div F (f_of_int F (sint (probe_position sys ! i))) (steps_per_mm settings ! i);
         p = (if report_inches K settings then f_mul F p (INCH_PER_MM K) else p);
         out = printFloat p out
     in if i < N_AXIS - 1 then printPgmString '','' out else out)"

definition report_probe_parameters ::
  "'f float_ops \<Rightarrow> 'f config \<Rightarrow> 'f settings_t \<Rightarrow> system_t \<Rightarrow> 'f serial \<Rightarrow> 'f serial" where
  "report_probe_parameters F K settings sys out =
    (let out = printPgmString ''[Probe:'' out;
         out = fold (probe_step F K settings sys) [0..<N_AXIS] out
     in printPgmString ('']'' @ CRLF) out)"

text \<open>
  The body of the two value loops of \<open>report_ngc_parameters\<close> (lines 235-240 over
  \<open>coord_data\<close>, lines 243-248 over \<open>gc_state.coord_offset\<close>): they differ in the array only.
\<close>

definition coord_step ::
  "'f float_ops \<Rightarrow> 'f config \<Rightarrow> 'f settings_t \<Rightarrow> 'f list \<Rightarrow> nat \<Rightarrow> 'f serial \<Rightarrow> 'f serial" where
  "coord_step F K settings coord_data i out =
    (let out = (if report_inches K settings
                then printFloat (f_mul F (coord_data ! i) (INCH_PER_MM K)) out
                else printFloat (coord_data ! i) out)
     in if i < N_AXIS - 1 then printPgmString '','' out
        else printPgmString ('']'' @ CRLF) out)"

text \<open>
  \<open>settings_read_coord_data\<close> (settings.c) is not part of the sources. It is modelled by
  the parameter \<open>eeprom\<close>, which gives the data of a slot, or \<open>None\<close> when the read fails;
  each call is recorded in the list of slots read so far.
\<close>

type_synonym 'f io = "'f serial \<times> nat list"

definition settings_read_coord_data ::
  "(nat \<Rightarrow> 'f list option) \<Rightarrow> nat \<Rightarrow> nat list \<Rightarrow> 'f list option \<times> nat list" where
  "settings_read_coord_data eeprom coord_select reads = (eeprom coord_select, reads @ [coord_select])"

text \<open>
  The loop over the coordinate slots, on the slots still to visit. \<open>Inl\<close> is the
  \<open>return\<close> out of the function after a failed read, \<open>Inr\<close> the normal exit of the loop.
  \<open>coord_select\<close> stays below 8, so the \<open>uint8_t\<close> counter does not wrap and
  \<open>coord_select+54\<close> is converted to the \<open>uint8_t\<close> parameter unchanged.
\<close>

fun coord_loop ::
  "'f float_ops \<Rightarrow> 'f config \<Rightarrow> status_codes \<Rightarrow> 'f settings_t \<Rightarrow> (nat \<Rightarrow> 'f list option)
    \<Rightarrow> nat list \<Rightarrow> 'f io \<Rightarrow> 'f io + 'f io" where
  "coord_loop F K C settings eeprom [] st = Inr st"
| "coord_loop F K C settings eeprom (coord_select # rest) (out, reads) =
    (case settings_read_coord_data eeprom coord_select reads of
       (None, reads) \<Rightarrow>
         Inl (report_status_message C (word_of_int (STATUS_SETTING_READ_FAIL C)) out, reads)
     | (Some coord_data, reads) \<Rightarrow>
         let out = printPgmString ''[G'' out;
             out = (if coord_select = 6 then printPgmString ''28'' out
                    else if coord_select = 7 then printPgmString ''30'' out
                    else print_unsigned_base10 (of_nat (coord_select + 54)) out);
             out = printPgmString '':'' out;
             out = fold (coord_step F K settings coord_data) [0..<N_AXIS] out
         in coord_loop F K C settings eeprom rest (out, reads))"

definition report_ngc_parameters ::
  "'f float_ops \<Rightarrow> 'f config \<Rightarrow> status_codes \<Rightarrow> 'f settings_t \<Rightarrow> 'f parser_state_t
    \<Rightarrow> system_t \<Rightarrow> (nat \<Rightarrow> 'f list option) \<Rightarrow> 'f io \<Rightarrow> 'f io" where
  "report_ngc_parameters F K C settings gc_state sys eeprom st =
    (case coord_loop F K C settings eeprom [0..<Suc SETTING_INDEX_NCOORD] st of
       Inl st \<Rightarrow> st
     | Inr (out, reads) \<Rightarrow>
         let out = printPgmString ''[G92:'' out;
             out = fold (coord_step F K settings (coord_offset gc_state)) [0..<N_AXIS] out
         in (report_probe_parameters F K settings sys out, reads))"

text \<open>
  One complete coordinate line, as the wire format has it: \<open>[G\<close>, the name of the slot,
  \<open>:\<close>, the values of the axes separated by commas, and \<open>]\r\n\<close>. \<open>slot_line\<close> is the
  line of a slot that can be read.
\<close>

definition coord_value :: "'f float_ops \<Rightarrow> 'f config \<Rightarrow> 'f settings_t \<Rightarrow> 'f list \<Rightarrow> nat \<Rightarrow> 'f" where
  "coord_value F K settings coord_data i =
    (if report_inches K settings then f_mul F (coord_data ! i) (INCH_PER_MM K)
     else coord_data ! i)"

definition coord_values ::
  "'f float_ops \<Rightarrow> 'f config \<Rightarrow> 'f settings_t \<Rightarrow> 'f list \<Rightarrow> 'f serial" where
  "coord_values F K settings coord_data =
    separated (PgmString '','')
      (map (\<lambda>i. Float (coord_value F K settings coord_data i)) [0..<N_AXIS])
    @ [PgmString ('']'' @ CRLF)]"

definition coord_line ::
  "'f float_ops \<Rightarrow> 'f config \<Rightarrow> 'f settings_t \<Rightarrow> nat \<Rightarrow> 'f list \<Rightarrow> 'f serial" where
  "coord_line F K settings coord_select coord_data =
    [PgmString ''[G'',
     if coord_select = 6 then PgmString ''28''
     else if coord_select = 7 then PgmString ''30''
     else UnsignedBase10 (of_nat (coord_select + 54)),
     PgmString '':'']
    @ coord_values F K settings coord_data"

definition slot_line ::
  "'f float_ops \<Rightarrow> 'f config \<Rightarrow> 'f settings_t \<Rightarrow> (nat \<Rightarrow> 'f list option) \<Rightarrow> nat \<Rightarrow> 'f serial" where
  "slot_line F K settings eeprom coord_select =
    (case eeprom coord_select of None \<Rightarrow> []
     | Some coord_data \<Rightarrow> coord_line F K settings coord_select coord_data)"

section \<open>report.c: the real-time status line\<close>

text \<open>
  The local array \<open>print_position\<close> is written at index \<open>i\<close> in the first loop, for
  \<open>i\<close> from 0 upwards, before any read: it is the list of the values written so far. The
  second loop updates it in place.
\<close>

definition mpos_step ::
  "'f float_ops \<Rightarrow> 'f config \<Rightarrow> 'f settings_t \<Rightarrow> int32_t list \<Rightarrow> nat
    \<Rightarrow> 'f list \<times> 'f serial \<Rightarrow> 'f list \<times> 'f serial" where
  "mpos_step F K settings current_position i = (\<lambda>(print_position, out).
    (let p = f_div F (f_of_int F (sint (current_position ! i))) (steps_per_mm settings ! i);
         p = (if report_inches K settings then f_mul F p (INCH_PER_MM K) else p);
         print_position = print_position @ [p];
         out = printFloat (print_position ! i) out
     in (print_position, printPgmString '','' out)))"

definition wpos_step ::
  "'f float_ops \<Rightarrow> 'f config \<Rightarrow> 'f settings_t \<Rightarrow> 'f parser_state_t \<Rightarrow> nat
    \<Rightarrow> 'f list \<times> 'f serial \<Rightarrow> 'f list \<times> 'f serial" where
  "wpos_step F K settings gc_state i = (\<lambda>(print_position, out).
    (let print_position =
          (if report_inches K settings then
             print_position[i := f_sub F (print_position ! i)
               (f_mul F (f_add F (coord_system gc_state ! i) (coord_offset gc_state ! i))
                  (INCH_PER_MM K))]
           else
             print_position[i := f_sub F (print_position ! i)
               (f_add F (coord_system gc_state ! i) (coord_offset gc_state ! i))]);
         out = printFloat (print_position ! i) out
     in (print_position, if i < N_AXIS - 1 then printPgmString '','' out else out)))"

text \<open>
  The value the first loop stores in \<open>print_position[i]\<close> (lines 359-360), and the offset
  the second loop subtracts from it (lines 368-372).
\<close>

definition mpos_value ::
  "'f float_ops \<Rightarrow> 'f config \<Rightarrow> 'f settings_t \<Rightarrow> int32_t list \<Rightarrow> nat \<Rightarrow> 'f" where
  "mpos_value F K settings current_position i =
    (let p = f_div F (f_of_int F (sint (current_position ! i))) (steps_per_mm settings ! i)
     in if report_inches K settings then f_mul F p (INCH_PER_MM K) else p)"

definition wpos_offset ::
  "'f float_ops \<Rightarrow> 'f config \<Rightarrow> 'f settings_t \<Rightarrow> 'f parser_state_t \<Rightarrow> nat \<Rightarrow> 'f" where
  "wpos_offset F K settings gc_state i =
    (if report_inches K settings
     then f_mul F (f_add F (coord_system gc_state ! i) (coord_offset gc_state ! i)) (INCH_PER_MM K)
     else f_add F (coord_system gc_state ! i) (coord_offset gc_state ! i))"

text \<open>The \<open>switch\<close> on \<open>sys.state\<close> (lines 346-354): it has no \<open>default\<close> case.\<close>

definition report_machine_state :: "state_codes \<Rightarrow> system_t \<Rightarrow> 'f serial \<Rightarrow> 'f serial" where
  "report_machine_state S sys out =
    (let c = uint (state sys)
     in if c = STATE_IDLE S then printPgmString ''<Idle'' out
        else if c = STATE_QUEUED S then printPgmString ''<Queue'' out
        else if c = STATE_CYCLE S then printPgmString ''<Run'' out
        else if c = STATE_HOLD S then printPgmString ''<Hold'' out
        else if c = STATE_HOMING S then printPgmString ''<Home'' out
        else if c = STATE_ALARM S then printPgmString ''<Alarm'' out
        else if c = STATE_CHECK_MODE S then printPgmString ''<Check'' out
        else out)"

text \<open>
  The block under \<open>#ifdef USE_LINE_NUMBERS\<close> (lines 377-386). \<open>plan_get_current_block\<close>
  (planner.c) is not part of the sources: its result, a block or \<open>NULL\<close>, is a parameter.
\<close>

definition report_line_number ::
  "'f config \<Rightarrow> plan_block_t option \<Rightarrow> 'f serial \<Rightarrow> 'f serial" where
  "report_line_number K plan_get_current_block out =
    (if USE_LINE_NUMBERS K then
       let out = printPgmString '',Ln:'' out;
           ln = (case plan_get_current_block of None \<Rightarrow> 0 | Some pb \<Rightarrow> line_number pb)
       in printInteger (sint ln) out
     else out)"

definition report_realtime_status ::
  "'f float_ops \<Rightarrow> 'f config \<Rightarrow> state_codes \<Rightarrow> 'f settings_t \<Rightarrow> 'f parser_state_t
    \<Rightarrow> system_t \<Rightarrow> plan_block_t option \<Rightarrow> 'f serial \<Rightarrow> 'f serial" where
  "report_realtime_status F K S settings gc_state sys plan_get_current_block out =
    (let current_position = position sys;
         out = report_machine_state S sys out;
         out = printPgmString '',MPos:'' out;
         (print_position, out) =
            fold (mpos_step F K settings current_position) [0..<N_AXIS] ([], out);
         out = printPgmString ''WPos:'' out;
         (print_position, out) =
            fold (wpos_step F K settings gc_state) [0..<N_AXIS] (print_position, out);
         out = report_line_number K plan_get_current_block out
     in printPgmString (''>'' @ CRLF) out)"

text \<open>The machine states with the tokens of their cases, in source order.\<close>

definition state_tokens :: "state_codes \<Rightarrow> (int \<times> string) list" where
  "state_tokens S =
    [(STATE_IDLE S, ''Idle''), (STATE_QUEUED S, ''Queue''), (STATE_CYCLE S, ''Run''),
     (STATE_HOLD S, ''Hold''), (STATE_HOMING S, ''Home''), (STATE_ALARM S, ''Alarm''),
     (STATE_CHECK_MODE S, ''Check'')]"

section \<open>Exact arithmetic and the rendering of floats\<close>

text \<open>
  The operations on the reals: the arithmetic of \<open>float\<close> wherever every operand and
  result is exactly representable, as in the end-to-end example of the spec.
\<close>

definition real_ops :: "real float_ops" where
  "real_ops =
    \<lparr>f_of_int = real_of_int, f_add = (+), f_sub = (-), f_mul = (*), f_div = (/),
     f_neg = uminus\<rparr>"

text \<open>
  Modelled from the spec: the body of \<open>printFloat\<close> (print.c) is missing. The spec (4.1)
  has it render a value with a fixed number of fractional digits, taken from the
  decimal-places setting, rounded half away from zero at that precision, with no trailing
  zero stripped and with the sign of a negative value. The spec leaves open the sign of a
  negative value that rounds to zero: here every negative value carries the sign.
  \<open>fixed_digits k n\<close> is \<open>n\<close> in exactly \<open>k\<close> decimal digits.
\<close>

definition fixed_digits :: "nat \<Rightarrow> nat \<Rightarrow> string" where
  "fixed_digits k n = map (\<lambda>j. char_of (48 + n div 10 ^ j mod 10)) (rev [0..<k])"

definition float_bytes :: "nat \<Rightarrow> real \<Rightarrow> string" where
  "float_bytes dp x =
    (let a = nat \<lfloor>\<bar>x\<bar> * 10 ^ dp + 1 / 2\<rfloor>
     in (if x < 0 then ''-'' else []) @ unsigned_base10_bytes (a div 10 ^ dp) @ ''.''
        @ fixed_digits dp (a mod 10 ^ dp))"

section \<open>Example values\<close>

definition example_status_codes :: status_codes where
  "example_status_codes =
    \<lparr>STATUS_EXPECTED_COMMAND_LETTER = 1, STATUS_BAD_NUMBER_FORMAT = 2,
     STATUS_INVALID_STATEMENT = 3, STATUS_NEGATIVE_VALUE = 4, STATUS_SETTING_DISABLED = 5,
     STATUS_SETTING_STEP_PULSE_MIN = 6, STATUS_SETTING_READ_FAIL = 7, STATUS_IDLE_ERROR = 8,
     STATUS_ALARM_LOCK = 9, STATUS_SOFT_LIMIT_ERROR = 10, STATUS_OVERFLOW = 11,
     STATUS_GCODE_MODAL_GROUP_VIOLATION = 21, STATUS_GCODE_UNSUPPORTED_COMMAND = 20,
     STATUS_GCODE_UNDEFINED_FEED_RATE = 22\<rparr>"

definition example_alarm_codes :: alarm_codes where
  "example_alarm_codes =
    \<lparr>ALARM_LIMIT_ERROR = - 1, ALARM_ABORT_CYCLE = - 2, ALARM_PROBE_FAIL = - 3\<rparr>"

definition example_state_codes :: state_codes where
  "example_state_codes =
    \<lparr>STATE_IDLE = 0, STATE_QUEUED = 8, STATE_CYCLE = 16, STATE_HOLD = 32, STATE_HOMING = 4,
     STATE_ALARM = 1, STATE_CHECK_MODE = 2\<rparr>"

definition example_config :: "real config" where
  "example_config =
    \<lparr>INCH_PER_MM = 393701 / 10000000, BITFLAG_REPORT_INCHES = 1, BITFLAG_AUTO_START = 2,
     BITFLAG_INVERT_ST_ENABLE = 4, BITFLAG_INVERT_LIMIT_PINS = 64,
     BITFLAG_SOFT_LIMIT_ENABLE = 32, BITFLAG_HARD_LIMIT_ENABLE = 8,
     BITFLAG_HOMING_ENABLE = 16, USE_LINE_NUMBERS = False,
     sizeof_step_invert_mask = 1, sizeof_dir_invert_mask = 1, sizeof_homing_dir_mask = 1,
     ULONG_BITS = 32\<rparr>"

definition example_settings :: "real settings_t" where
  "example_settings =
    \<lparr>steps_per_mm = [250, 250, 200], max_rate = [500, 500, 400],
     acceleration = [36000, 36000, 7200], max_travel = [- 200, - 150, - 50],
     pulse_microseconds = 10, step_invert_mask = 0, dir_invert_mask = 5,
     stepper_idle_lock_time = 25, junction_deviation = 1 / 50, arc_tolerance = 1 / 500,
     decimal_places = 3, flags = 0, homing_dir_mask = 0, homing_feed_rate = 25,
     homing_seek_rate = 250, homing_debounce_delay = 100, homing_pulloff = 1\<rparr>"

definition example_parser_state :: "real parser_state_t" where
  "example_parser_state = \<lparr>coord_system = [0, 0, 0], coord_offset = [0, 0, 0]\<rparr>"

definition example_offsets :: "real parser_state_t" where
  "example_offsets = \<lparr>coord_system = [1, 2, 3], coord_offset = [1 / 2, 0, - 1]\<rparr>"

definition example_system :: system_t where
  "example_system =
    \<lparr>state = 16, position = [2500, 2500, 2000], probe_position = [0, 0, 0]\<rparr>"

text \<open>An EEPROM whose slot 2 cannot be read, and one whose slots are all readable.\<close>

definition example_eeprom_fail :: "nat \<Rightarrow> real list option" where
  "example_eeprom_fail slot = (if slot = 2 then None else Some [1, 2, 3])"

definition example_eeprom_ok :: "nat \<Rightarrow> real list option" where
  "example_eeprom_ok slot = Some [1, 2, 3]"

section \<open>Properties of the number rendering\<close>


lemma bytes_append: "bytes pf (a @ b) = bytes pf a @ bytes pf b"
  by (simp add: bytes_def)

lemma bytes_Nil: "bytes pf [] = []"
  by (simp add: bytes_def)

lemma bytes_Cons: "bytes pf (c # cs) = call_bytes pf c @ bytes pf cs"
  by (simp add: bytes_def)

lemma decimal_value_snoc:
  "decimal_value (s @ [c]) = 10 * decimal_value s + (of_char c - 48)"
  by (simp add: decimal_value_def)

lemma decimal_value_digit_buf: "decimal_value (rev (digit_buf n)) = n"
proof (induction n rule: digit_buf.induct)
  case (1 n)
  show ?case
  proof (cases "n = 0")
    case True
    then show ?thesis by (simp add: digit_buf.simps decimal_value_def)
  next
    case False
    have "48 + n mod 10 < 256" by simp
    hence c: "of_char (char_of (48 + n mod 10) :: char) = 48 + n mod 10"
      by (simp add: )
    from False have "digit_buf n = char_of (48 + n mod 10) # digit_buf (n div 10)"
      by (subst digit_buf.simps) simp
    with 1 False c show ?thesis
      by (simp add: decimal_value_snoc)
  qed
qed

lemma decimal_value_unsigned_base10: "decimal_value (unsigned_base10_bytes n) = n"
  by (simp add: unsigned_base10_bytes_def decimal_value_digit_buf) (simp add: decimal_value_def)

lemma length_digit_buf: "n < 10 ^ k \<Longrightarrow> length (digit_buf n) \<le> k"
proof (induction n arbitrary: k rule: digit_buf.induct)
  case (1 n)
  show ?case
  proof (cases "n = 0")
    case True
    then show ?thesis by (simp add: digit_buf.simps)
  next
    case False
    with 1(2) obtain k' where k: "k = Suc k'" by (cases k) auto
    with 1(2) have "n div 10 < 10 ^ k'" by (simp add: less_mult_imp_div_less mult.commute)
    with 1(1)[OF False] have "length (digit_buf (n div 10)) \<le> k'" by simp
    with False k show ?thesis by (subst digit_buf.simps) simp
  qed
qed

lemma digit_buf_last: "n \<noteq> 0 \<Longrightarrow> last (digit_buf n) \<noteq> CHR ''0''"
proof (induction n rule: digit_buf.induct)
  case (1 n)
  show ?case
  proof (cases "n div 10 = 0")
    case True
    with 1(2) have "n mod 10 \<noteq> 0" by presburger
    have "(of_char (char_of (48 + n mod 10) :: char) :: nat) = 48 + n mod 10" by simp
    moreover have "(of_char CHR ''0'' :: nat) = 48" by simp
    ultimately have "(char_of (48 + n mod 10) :: char) \<noteq> CHR ''0''"
      using \<open>n mod 10 \<noteq> 0\<close> by (metis add_cancel_right_right)
    with True 1(2) show ?thesis by (subst digit_buf.simps) (simp add: digit_buf.simps[of 0])
  next
    case False
    hence "digit_buf (n div 10) \<noteq> []" by (subst digit_buf.simps) simp
    with 1 False show ?thesis by (subst digit_buf.simps) simp
  qed
qed


lemma hd_unsigned_base10: "(hd (unsigned_base10_bytes n) = CHR ''0'') = (n = 0)"
proof (cases "n = 0")
  case True
  then show ?thesis by (simp add: unsigned_base10_bytes_def)
next
  case False
  hence ne: "digit_buf n \<noteq> []" by (subst digit_buf.simps) simp
  with False digit_buf_last[OF False] show ?thesis
    by (simp add: unsigned_base10_bytes_def hd_rev)
qed

lemma length_unsigned_base10_uint8: "length (unsigned_base10_bytes (unat (n :: uint8_t))) \<le> 3"
proof -
  have "unat n < 2 ^ 8" using unsigned_less[of n] by simp
  hence "unat n < 10 ^ 3" by simp
  from length_digit_buf[OF this] show ?thesis
    by (simp add: unsigned_base10_bytes_def)
qed

section \<open>Status messages\<close>

lemma report_status_message_ok:
  "report_status_message C 0 out = out @ [PgmString (''ok'' @ CRLF)]"
  by (simp add: report_status_message_def printPgmString_def)

lemma report_status_message_map_of:
  "report_status_message C code out =
    (if code = 0 then out @ [PgmString (''ok'' @ CRLF)]
     else out @ [PgmString ''error: ''] @
       (case map_of (status_phrases C) (uint code) of
          Some phrase \<Rightarrow> [PgmString phrase]
        | None \<Rightarrow> [PgmString ''Invalid gcode ID:'', UnsignedBase10 code]) @
       [PgmString CRLF])"
  by (simp add: report_status_message_def status_phrases_def Let_def printPgmString_def
      print_unsigned_base10_def)

lemma report_status_message_known:
  assumes "distinct (map fst (status_phrases C))" "code \<noteq> 0"
    "(uint code, phrase) \<in> set (status_phrases C)"
  shows "report_status_message C code out =
    out @ [PgmString ''error: '', PgmString phrase, PgmString CRLF]"
proof -
  from assms(1,3) have "map_of (status_phrases C) (uint code) = Some phrase"
    by (rule map_of_is_SomeI)
  with assms(2) show ?thesis
    by (simp add: report_status_message_map_of)
qed

lemma report_status_message_unknown:
  assumes "code \<noteq> 0" "uint code \<notin> fst ` set (status_phrases C)"
  shows "report_status_message C code out =
    out @ [PgmString ''error: '', PgmString ''Invalid gcode ID:'', UnsignedBase10 code,
           PgmString CRLF]"
proof -
  from assms(2) have "map_of (status_phrases C) (uint code) = None"
    by (simp add: map_of_eq_None_iff)
  with assms(1) show ?thesis
    by (simp add: report_status_message_map_of)
qed

text \<open>
  C1: \<open>report_status_message(0)\<close> writes exactly \<open>ok\r\n\<close>. A nonzero code that is one of
  the case labels writes \<open>error: \<close>, the phrase of that label and \<open>\r\n\<close>. A nonzero code
  that is no case label writes \<open>error: Invalid gcode ID:\<close>, the code in decimal (the digits
  written read back as the code) and \<open>\r\n\<close>. The case labels of a C \<open>switch\<close> are distinct.
\<close>

theorem report_status_message_bytes:
  assumes "distinct (map fst (status_phrases C))"
  shows "bytes pf (report_status_message C 0 out) = bytes pf out @ ''ok'' @ CRLF
    \<and> (\<forall>code phrase. code \<noteq> 0 \<and> (uint code, phrase) \<in> set (status_phrases C) \<longrightarrow>
          bytes pf (report_status_message C code out)
            = bytes pf out @ ''error: '' @ phrase @ CRLF)
    \<and> (\<forall>code. code \<noteq> 0 \<and> uint code \<notin> fst ` set (status_phrases C) \<longrightarrow>
          bytes pf (report_status_message C code out)
            = bytes pf out @ ''error: Invalid gcode ID:'' @ unsigned_base10_bytes (unat code) @ CRLF
          \<and> decimal_value (unsigned_base10_bytes (unat code)) = unat code)"
proof (intro conjI allI impI)
  show "bytes pf (report_status_message C 0 out) = bytes pf out @ ''ok'' @ CRLF"
    by (simp add: report_status_message_ok bytes_append bytes_Cons bytes_Nil)
next
  fix code :: uint8_t and phrase
  assume "code \<noteq> 0 \<and> (uint code, phrase) \<in> set (status_phrases C)"
  hence "report_status_message C code out =
      out @ [PgmString ''error: '', PgmString phrase, PgmString CRLF]"
    using report_status_message_known[OF assms] by blast
  then show "bytes pf (report_status_message C code out)
      = bytes pf out @ ''error: '' @ phrase @ CRLF"
    by (simp add: bytes_append bytes_Cons bytes_Nil)
next
  fix code :: uint8_t
  assume "code \<noteq> 0 \<and> uint code \<notin> fst ` set (status_phrases C)"
  then show "bytes pf (report_status_message C code out)
      = bytes pf out @ ''error: Invalid gcode ID:'' @ unsigned_base10_bytes (unat code) @ CRLF"
    by (simp add: report_status_message_unknown bytes_append bytes_Cons bytes_Nil)
next
  fix code :: uint8_t
  show "decimal_value (unsigned_base10_bytes (unat code)) = unat code"
    by (rule decimal_value_unsigned_base10)
qed

lemma unsigned_base10_bytes_23: "unsigned_base10_bytes 23 = ''23''"
  by code_simp

theorem report_status_message_bytes_witness:
  "distinct (map fst (status_phrases example_status_codes))
   \<and> bytes (\<lambda>x::real. []) (report_status_message example_status_codes 0 []) = ''ok'' @ CRLF
   \<and> bytes (\<lambda>x::real. []) (report_status_message example_status_codes 7 [])
       = ''error: EEPROM read fail. Using defaults'' @ CRLF
   \<and> bytes (\<lambda>x::real. []) (report_status_message example_status_codes 23 [])
       = ''error: Invalid gcode ID:23'' @ CRLF"
proof -
  have d: "distinct (map fst (status_phrases example_status_codes))"
    by (simp add: status_phrases_def example_status_codes_def)
  have k: "(7::uint8_t) \<noteq> 0 \<and> (uint (7::uint8_t), ''EEPROM read fail. Using defaults'')
      \<in> set (status_phrases example_status_codes)"
    by (simp add: status_phrases_def example_status_codes_def)
  have u: "(23::uint8_t) \<noteq> 0 \<and> uint (23::uint8_t) \<notin> fst ` set (status_phrases example_status_codes)"
    by (simp add: status_phrases_def example_status_codes_def)
  from report_status_message_bytes[OF d, of "\<lambda>x::real. []" "[]"] k u d show ?thesis
    by (auto simp: bytes_Nil unsigned_base10_bytes_23 simp del: distinct.simps)
qed

section \<open>The unsigned decimal printer\<close>

lemma nat_below_10:
  "(d::nat) < 10 \<Longrightarrow>
    d = 0 \<or> d = 1 \<or> d = 2 \<or> d = 3 \<or> d = 4 \<or> d = 5 \<or> d = 6 \<or> d = 7 \<or> d = 8 \<or> d = 9"
  by arith

lemma digit_char: "d < 10 \<Longrightarrow> (char_of (48 + d :: nat) :: char) \<in> set ''0123456789''"
  by (drule nat_below_10) (elim disjE; simp add: char_of_def bit_Suc_0_iff)

lemma digit_buf_digits: "set (digit_buf n) \<subseteq> set ''0123456789''"
proof (induction n rule: digit_buf.induct)
  case (1 n)
  show ?case
  proof (cases "n = 0")
    case True
    then show ?thesis by (simp add: digit_buf.simps)
  next
    case False
    have "(char_of (48 + n mod 10) :: char) \<in> set ''0123456789''"
      by (rule digit_char) simp
    with 1 False show ?thesis
      by (subst digit_buf.simps) simp
  qed
qed

lemma unsigned_base10_digits: "set (unsigned_base10_bytes n) \<subseteq> set ''0123456789''"
  using digit_buf_digits[of n] by (simp add: unsigned_base10_bytes_def)

lemma unsigned_base10_nonempty: "unsigned_base10_bytes n \<noteq> []"
proof (cases "n = 0")
  case True
  then show ?thesis by (simp add: unsigned_base10_bytes_def)
next
  case False
  hence "digit_buf n \<noteq> []" by (subst digit_buf.simps) simp
  with False show ?thesis by (simp add: unsigned_base10_bytes_def)
qed

lemma unsigned_base10_bytes_255: "unsigned_base10_bytes 255 = ''255''"
  by code_simp

text \<open>
  C5 (as amended): the parameter of \<open>print_unsigned_base10\<close> is a \<open>uint8_t\<close> (print.h:34).
  It renders 0 as \<open>0\<close> and 255, the largest value of its parameter type, as \<open>255\<close>; every
  value is rendered in one to three decimal digits that read back as the value, with no
  leading zero.
\<close>

theorem print_unsigned_base10_uint8:
  "bytes pf (print_unsigned_base10 0 out) = bytes pf out @ ''0''
   \<and> bytes pf (print_unsigned_base10 255 out) = bytes pf out @ ''255''
   \<and> (\<exists>ds. bytes pf (print_unsigned_base10 n out) = bytes pf out @ ds
         \<and> decimal_value ds = unat n
         \<and> set ds \<subseteq> set ''0123456789''
         \<and> 1 \<le> length ds \<and> length ds \<le> 3
         \<and> (hd ds = CHR ''0'') = (n = 0))"
proof (intro conjI exI[of _ "unsigned_base10_bytes (unat n)"])
  show "bytes pf (print_unsigned_base10 0 out) = bytes pf out @ ''0''"
    by (simp add: print_unsigned_base10_def bytes_append bytes_Cons bytes_Nil
        unsigned_base10_bytes_def)
  show "bytes pf (print_unsigned_base10 255 out) = bytes pf out @ ''255''"
    by (simp add: print_unsigned_base10_def bytes_append bytes_Cons bytes_Nil
        unsigned_base10_bytes_255)
  show "bytes pf (print_unsigned_base10 n out) = bytes pf out @ unsigned_base10_bytes (unat n)"
    by (simp add: print_unsigned_base10_def bytes_append bytes_Cons bytes_Nil)
  show "decimal_value (unsigned_base10_bytes (unat n)) = unat n"
    by (rule decimal_value_unsigned_base10)
  show "set (unsigned_base10_bytes (unat n)) \<subseteq> set ''0123456789''"
    by (rule unsigned_base10_digits)
  show "1 \<le> length (unsigned_base10_bytes (unat n))"
    using unsigned_base10_nonempty[of "unat n"] by (simp add: Suc_le_eq)
  show "length (unsigned_base10_bytes (unat n)) \<le> 3"
    by (rule length_unsigned_base10_uint8)
  show "(hd (unsigned_base10_bytes (unat n)) = CHR ''0'') = (n = 0)"
    by (simp add: hd_unsigned_base10 unat_eq_0)
qed

theorem print_unsigned_base10_uint8_witness:
  "bytes (\<lambda>x::real. []) (print_unsigned_base10 0 []) = ''0''
   \<and> bytes (\<lambda>x::real. []) (print_unsigned_base10 255 []) = ''255''"
  using print_unsigned_base10_uint8[of "\<lambda>x::real. []" "[]" 0] by (simp add: bytes_Nil)

text \<open>
  The claim as stated fails: a call \<open>print_unsigned_base10(4294967295)\<close> converts its
  argument to the \<open>uint8_t\<close> parameter, which is 255, and \<open>255\<close> is what is written.
\<close>

theorem print_unsigned_base10_max32_counterexample:
  "bytes (\<lambda>x::real. []) (print_unsigned_base10 (word_of_nat 4294967295) []) = ''255''
   \<and> bytes (\<lambda>x::real. []) (print_unsigned_base10 (word_of_nat 4294967295) [])
       \<noteq> ''4294967295''"
proof -
  have "(word_of_nat 4294967295 :: uint8_t) = 255" by simp
  then show ?thesis
    by (simp add: print_unsigned_base10_def bytes_Cons bytes_Nil unsigned_base10_bytes_255)
qed

section \<open>Alarm messages\<close>

lemma report_alarm_message_calls:
  "report_alarm_message A code out =
    out @ [PgmString ''ALARM: ''] @
      (if sint code = ALARM_LIMIT_ERROR A then [PgmString ''Hard/soft limit'']
       else if sint code = ALARM_ABORT_CYCLE A then [PgmString ''Abort during cycle'']
       else if sint code = ALARM_PROBE_FAIL A then [PgmString ''Probe fail'']
       else []) @
      [PgmString CRLF, DelayMs 500]"
  by (simp add: report_alarm_message_def Let_def printPgmString_def delay_ms_def)

text \<open>
  C8: \<open>report_alarm_message\<close> always writes \<open>ALARM: \<close>, a phrase and \<open>\r\n\<close>. The phrase is
  that of the alarm code for the three case labels, and empty for every other code, which
  gives exactly \<open>ALARM: \r\n\<close>. The case labels of a C \<open>switch\<close> are distinct.
\<close>

theorem report_alarm_message_bytes:
  assumes "distinct [ALARM_LIMIT_ERROR A, ALARM_ABORT_CYCLE A, ALARM_PROBE_FAIL A]"
  shows "(\<exists>phrase. bytes pf (report_alarm_message A code out)
            = bytes pf out @ ''ALARM: '' @ phrase @ CRLF)
    \<and> (sint code = ALARM_LIMIT_ERROR A \<longrightarrow> bytes pf (report_alarm_message A code out)
            = bytes pf out @ ''ALARM: '' @ ''Hard/soft limit'' @ CRLF)
    \<and> (sint code = ALARM_ABORT_CYCLE A \<longrightarrow> bytes pf (report_alarm_message A code out)
            = bytes pf out @ ''ALARM: '' @ ''Abort during cycle'' @ CRLF)
    \<and> (sint code = ALARM_PROBE_FAIL A \<longrightarrow> bytes pf (report_alarm_message A code out)
            = bytes pf out @ ''ALARM: '' @ ''Probe fail'' @ CRLF)
    \<and> (sint code \<notin> {ALARM_LIMIT_ERROR A, ALARM_ABORT_CYCLE A, ALARM_PROBE_FAIL A} \<longrightarrow>
          bytes pf (report_alarm_message A code out) = bytes pf out @ ''ALARM: '' @ CRLF)"
proof -
  have "\<exists>phrase. bytes pf (report_alarm_message A code out)
            = bytes pf out @ ''ALARM: '' @ phrase @ CRLF"
    by (simp add: report_alarm_message_calls bytes_append bytes_Cons bytes_Nil)
  with assms show ?thesis
    by (simp add: report_alarm_message_calls bytes_append bytes_Cons bytes_Nil)
qed

theorem report_alarm_message_bytes_witness:
  "distinct [ALARM_LIMIT_ERROR example_alarm_codes, ALARM_ABORT_CYCLE example_alarm_codes,
      ALARM_PROBE_FAIL example_alarm_codes]
   \<and> bytes (\<lambda>x::real. []) (report_alarm_message example_alarm_codes (- 1) [])
       = ''ALARM: Hard/soft limit'' @ CRLF
   \<and> bytes (\<lambda>x::real. []) (report_alarm_message example_alarm_codes (- 2) [])
       = ''ALARM: Abort during cycle'' @ CRLF
   \<and> bytes (\<lambda>x::real. []) (report_alarm_message example_alarm_codes (- 3) [])
       = ''ALARM: Probe fail'' @ CRLF
   \<and> bytes (\<lambda>x::real. []) (report_alarm_message example_alarm_codes 5 [])
       = ''ALARM: '' @ CRLF"
proof -
  have d: "distinct [ALARM_LIMIT_ERROR example_alarm_codes,
      ALARM_ABORT_CYCLE example_alarm_codes, ALARM_PROBE_FAIL example_alarm_codes]"
    by (simp add: example_alarm_codes_def)
  from d report_alarm_message_bytes[OF d, of "\<lambda>x::real. []" "- 1" "[]"]
    report_alarm_message_bytes[OF d, of "\<lambda>x::real. []" "- 2" "[]"]
    report_alarm_message_bytes[OF d, of "\<lambda>x::real. []" "- 3" "[]"]
    report_alarm_message_bytes[OF d, of "\<lambda>x::real. []" "5" "[]"]
  show ?thesis
    by (simp add: example_alarm_codes_def bytes_Nil)
qed

section \<open>The real-time status line\<close>

lemma printed_floats_append:
  "printed_floats (a @ b) = printed_floats a @ printed_floats b"
  by (induction a rule: printed_floats.induct) simp_all

lemma report_machine_state_append:
  "report_machine_state S sys out = out @ report_machine_state S sys []"
  by (simp add: report_machine_state_def Let_def printPgmString_def)

lemma report_line_number_append:
  "report_line_number K pb out = out @ report_line_number K pb []"
  by (simp add: report_line_number_def Let_def printPgmString_def printInteger_def)

lemma printed_floats_machine_state: "printed_floats (report_machine_state S sys []) = []"
  by (simp add: report_machine_state_def Let_def printPgmString_def)

lemma printed_floats_line_number: "printed_floats (report_line_number K pb []) = []"
  by (simp add: report_line_number_def Let_def printPgmString_def printInteger_def)

lemma mpos_step_value:
  "mpos_step F K settings cp i (pp, out) =
    (pp @ [mpos_value F K settings cp i],
     out @ [Float ((pp @ [mpos_value F K settings cp i]) ! i), PgmString '',''])"
  by (simp add: mpos_step_def mpos_value_def Let_def printFloat_def printPgmString_def)

lemma wpos_step_value:
  "wpos_step F K settings gc i (pp, out) =
    (pp[i := f_sub F (pp ! i) (wpos_offset F K settings gc i)],
     out @ Float (pp[i := f_sub F (pp ! i) (wpos_offset F K settings gc i)] ! i)
       # (if i < N_AXIS - 1 then [PgmString '',''] else []))"
  by (simp add: wpos_step_def wpos_offset_def Let_def printFloat_def printPgmString_def)

lemma upt_N_AXIS: "[0..<N_AXIS] = [0, 1, 2]"
  by (simp add: N_AXIS_def numeral_3_eq_3 numeral_2_eq_2)

lemma report_realtime_status_calls:
  "report_realtime_status F K S settings gc sys pb out =
    report_line_number K pb
      (report_machine_state S sys out @
       [PgmString '',MPos:'',
        Float (mpos_value F K settings (position sys) 0), PgmString '','',
        Float (mpos_value F K settings (position sys) 1), PgmString '','',
        Float (mpos_value F K settings (position sys) 2), PgmString '','',
        PgmString ''WPos:'',
        Float (f_sub F (mpos_value F K settings (position sys) 0) (wpos_offset F K settings gc 0)),
        PgmString '','',
        Float (f_sub F (mpos_value F K settings (position sys) 1) (wpos_offset F K settings gc 1)),
        PgmString '','',
        Float (f_sub F (mpos_value F K settings (position sys) 2) (wpos_offset F K settings gc 2))])
    @ [PgmString (''>'' @ CRLF)]"
  by (simp add: report_realtime_status_def upt_N_AXIS Let_def mpos_step_value wpos_step_value
      printPgmString_def report_line_number_append[of K pb "_ @ _"]
      report_line_number_append[of K pb "_ # _"]) (simp add: N_AXIS_def)


lemma bytes_separated_floats:
  "bytes pf (separated (PgmString '','') (map Float ws)) = concat (separated '','' (map pf ws))"
  by (induction ws rule: induct_list012) (simp_all add: bytes_Cons bytes_Nil)

lemma bytes_float_commas:
  "bytes pf (concat (map (\<lambda>v. [Float v, PgmString '','']) ms)) = concat (map (\<lambda>v. pf v @ '','') ms)"
  by (induction ms) (simp_all add: bytes_Cons bytes_Nil)

lemma printed_floats_realtime_status:
  "printed_floats (report_realtime_status F K S settings gc sys pb []) =
    [mpos_value F K settings (position sys) 0,
     mpos_value F K settings (position sys) 1,
     mpos_value F K settings (position sys) 2,
     f_sub F (mpos_value F K settings (position sys) 0) (wpos_offset F K settings gc 0),
     f_sub F (mpos_value F K settings (position sys) 1) (wpos_offset F K settings gc 1),
     f_sub F (mpos_value F K settings (position sys) 2) (wpos_offset F K settings gc 2)]"
  by (simp add: report_realtime_status_calls report_line_number_append[of K pb "_ # _"]
      report_line_number_append[of K pb "_ @ _"]
      printed_floats_append printed_floats_machine_state printed_floats_line_number)

text \<open>
  C3: in the calls and in the bytes of the real-time status line, each of the \<open>N_AXIS\<close>
  values after \<open>,MPos:\<close> is followed by a comma, the last one included, and the \<open>N_AXIS\<close>
  values after \<open>WPos:\<close> have a comma between them and none after the last.
\<close>

theorem report_realtime_status_commas:
  "let fl = printed_floats (report_realtime_status F K S settings gc sys pb []);
       mpos = take N_AXIS fl;
       wpos = drop N_AXIS fl
   in length mpos = N_AXIS \<and> length wpos = N_AXIS
      \<and> report_realtime_status F K S settings gc sys pb out =
          report_line_number K pb
            (report_machine_state S sys out @ [PgmString '',MPos:'']
             @ concat (map (\<lambda>v. [Float v, PgmString '','']) mpos)
             @ [PgmString ''WPos:''] @ separated (PgmString '','') (map Float wpos))
          @ [PgmString (''>'' @ CRLF)]
      \<and> bytes pf (report_realtime_status F K S settings gc sys pb out) =
          bytes pf (report_machine_state S sys out) @ '',MPos:''
          @ concat (map (\<lambda>v. pf v @ '','') mpos)
          @ ''WPos:'' @ concat (separated '','' (map pf wpos))
          @ bytes pf (report_line_number K pb []) @ ''>'' @ CRLF"
proof -
  define fl where "fl = printed_floats (report_realtime_status F K S settings gc sys pb [])"
  define mpos where "mpos = take N_AXIS fl"
  define wpos where "wpos = drop N_AXIS fl"
  have mpos: "mpos = [mpos_value F K settings (position sys) 0,
      mpos_value F K settings (position sys) 1, mpos_value F K settings (position sys) 2]"
    by (simp add: mpos_def fl_def printed_floats_realtime_status N_AXIS_def)
  have wpos: "wpos =
     [f_sub F (mpos_value F K settings (position sys) 0) (wpos_offset F K settings gc 0),
      f_sub F (mpos_value F K settings (position sys) 1) (wpos_offset F K settings gc 1),
      f_sub F (mpos_value F K settings (position sys) 2) (wpos_offset F K settings gc 2)]"
    by (simp add: wpos_def fl_def printed_floats_realtime_status N_AXIS_def)
  have len: "length mpos = N_AXIS" "length wpos = N_AXIS"
    by (simp_all add: mpos wpos N_AXIS_def)
  have calls: "report_realtime_status F K S settings gc sys pb out =
      report_line_number K pb
        (report_machine_state S sys out @ [PgmString '',MPos:'']
         @ concat (map (\<lambda>v. [Float v, PgmString '','']) mpos)
         @ [PgmString ''WPos:''] @ separated (PgmString '','') (map Float wpos))
      @ [PgmString (''>'' @ CRLF)]"
    by (simp add: mpos wpos report_realtime_status_calls)
  have "bytes pf (report_realtime_status F K S settings gc sys pb out) =
      bytes pf (report_machine_state S sys out) @ '',MPos:''
      @ concat (map (\<lambda>v. pf v @ '','') mpos)
      @ ''WPos:'' @ concat (separated '','' (map pf wpos))
      @ bytes pf (report_line_number K pb []) @ ''>'' @ CRLF"
    unfolding calls
    by (subst report_line_number_append)
      (simp add: bytes_append bytes_Cons bytes_Nil bytes_separated_floats bytes_float_commas)
  with len calls show ?thesis
    unfolding fl_def mpos_def wpos_def Let_def by blast
qed

lemma below_N_AXIS: "i < N_AXIS \<Longrightarrow> i = 0 \<or> i = 1 \<or> i = 2"
  unfolding N_AXIS_def by arith

text \<open>
  C4: the real-time status line prints \<open>2 * N_AXIS\<close> values, the machine positions and
  then the work positions. For every axis \<open>i\<close>, the work position printed is the machine
  position printed for \<open>i\<close> minus the sum of the coordinate-system offset and the transient
  offset of \<open>i\<close>; with the report-inches flag set, that sum is multiplied by \<open>INCH_PER_MM\<close>,
  the factor the machine position was multiplied by.
\<close>

theorem report_realtime_status_work_position:
  "let fl = printed_floats (report_realtime_status F K S settings gc sys pb [])
   in length fl = 2 * N_AXIS
      \<and> (\<forall>i<N_AXIS.
            fl ! i =
              (if report_inches K settings
               then f_mul F (f_div F (f_of_int F (sint (position sys ! i)))
                               (steps_per_mm settings ! i)) (INCH_PER_MM K)
               else f_div F (f_of_int F (sint (position sys ! i))) (steps_per_mm settings ! i))
          \<and> fl ! (N_AXIS + i) =
              f_sub F (fl ! i)
                (if report_inches K settings
                 then f_mul F (f_add F (coord_system gc ! i) (coord_offset gc ! i)) (INCH_PER_MM K)
                 else f_add F (coord_system gc ! i) (coord_offset gc ! i)))"
proof -
  have "length (printed_floats (report_realtime_status F K S settings gc sys pb [])) = 2 * N_AXIS"
    by (simp add: printed_floats_realtime_status N_AXIS_def)
  moreover have "\<forall>i<N_AXIS.
      printed_floats (report_realtime_status F K S settings gc sys pb []) ! i =
        (if report_inches K settings
         then f_mul F (f_div F (f_of_int F (sint (position sys ! i)))
                         (steps_per_mm settings ! i)) (INCH_PER_MM K)
         else f_div F (f_of_int F (sint (position sys ! i))) (steps_per_mm settings ! i))
      \<and> printed_floats (report_realtime_status F K S settings gc sys pb []) ! (N_AXIS + i) =
        f_sub F (printed_floats (report_realtime_status F K S settings gc sys pb []) ! i)
          (if report_inches K settings
           then f_mul F (f_add F (coord_system gc ! i) (coord_offset gc ! i)) (INCH_PER_MM K)
           else f_add F (coord_system gc ! i) (coord_offset gc ! i))"
  proof (intro allI impI)
    fix i assume "i < N_AXIS"
    then consider "i = 0" | "i = 1" | "i = 2" using below_N_AXIS by blast
    then show "printed_floats (report_realtime_status F K S settings gc sys pb []) ! i =
        (if report_inches K settings
         then f_mul F (f_div F (f_of_int F (sint (position sys ! i)))
                         (steps_per_mm settings ! i)) (INCH_PER_MM K)
         else f_div F (f_of_int F (sint (position sys ! i))) (steps_per_mm settings ! i))
      \<and> printed_floats (report_realtime_status F K S settings gc sys pb []) ! (N_AXIS + i) =
        f_sub F (printed_floats (report_realtime_status F K S settings gc sys pb []) ! i)
          (if report_inches K settings
           then f_mul F (f_add F (coord_system gc ! i) (coord_offset gc ! i)) (INCH_PER_MM K)
           else f_add F (coord_system gc ! i) (coord_offset gc ! i))"
      by cases
        (simp_all add: printed_floats_realtime_status N_AXIS_def mpos_value_def wpos_offset_def
          Let_def)
  qed
  ultimately show ?thesis
    unfolding Let_def by blast
qed

theorem report_realtime_status_commas_witness:
  "report_realtime_status real_ops example_config example_state_codes example_settings
      example_offsets example_system None [] =
    [PgmString ''<Run'', PgmString '',MPos:'',
     Float 10, PgmString '','', Float 10, PgmString '','', Float 10, PgmString '','',
     PgmString ''WPos:'', Float (17 / 2), PgmString '','', Float 8, PgmString '','', Float 8,
     PgmString (''>'' @ CRLF)]"
  using report_realtime_status_commas[of real_ops example_config example_state_codes
      example_settings example_offsets example_system None "[]" "\<lambda>x. []"]
  by (simp add: Let_def printed_floats_realtime_status N_AXIS_def mpos_value_def
      wpos_offset_def report_inches_def bit_istrue_def report_machine_state_def
      report_line_number_def printPgmString_def
      real_ops_def example_config_def example_state_codes_def example_settings_def
      example_offsets_def example_system_def)

theorem report_realtime_status_work_position_witness:
  "(2::nat) < N_AXIS
   \<and> printed_floats (report_realtime_status real_ops example_config example_state_codes
        (example_settings\<lparr>flags := 1\<rparr>) example_offsets example_system None []) ! (N_AXIS + 2)
     = 10 * (393701 / 10000000) - (3 + - 1) * (393701 / 10000000)"
proof -
  have h: "(2::nat) < N_AXIS" by (simp add: N_AXIS_def)
  have ri: "report_inches example_config (example_settings\<lparr>flags := 1\<rparr>)"
    "report_inches example_config (example_settings\<lparr>flags := Suc 0\<rparr>)"
    by (simp_all add: report_inches_def bit_istrue_def example_config_def)
  have vals: "sint (position example_system ! 2) = 2000"
    "steps_per_mm example_settings ! 2 = 200"
    "coord_system example_offsets ! 2 = 3" "coord_offset example_offsets ! 2 = - 1"
    "INCH_PER_MM example_config = 393701 / 10000000"
    by (simp_all add: example_system_def example_settings_def example_offsets_def
        example_config_def)
  note t = report_realtime_status_work_position[of real_ops example_config example_state_codes
      "example_settings\<lparr>flags := 1\<rparr>" example_offsets example_system None,
      unfolded Let_def, THEN conjunct2, rule_format, OF h]
  from t[THEN conjunct2] t[THEN conjunct1] h show ?thesis
    by (simp add: ri vals real_ops_def)
qed

section \<open>The machine state token and the end-to-end line\<close>


lemma unsigned_base10_bytes_10: "unsigned_base10_bytes 10 = ''10''"
  by code_simp

lemma fixed_digits_3_0: "fixed_digits 3 0 = ''000''"
  by code_simp

lemma float_bytes_3_10: "float_bytes 3 10 = ''10.000''"
  by (simp add: float_bytes_def unsigned_base10_bytes_10 fixed_digits_3_0)


lemma report_machine_state_map_of:
  "report_machine_state S sys out =
    out @ (case map_of (state_tokens S) (uint (state sys)) of
             Some tok \<Rightarrow> [PgmString (''<'' @ tok)]
           | None \<Rightarrow> [])"
  by (simp add: report_machine_state_def state_tokens_def Let_def printPgmString_def)

lemma report_machine_state_known:
  assumes "distinct (map fst (state_tokens S))" "(uint (state sys), tok) \<in> set (state_tokens S)"
  shows "report_machine_state S sys out = out @ [PgmString (''<'' @ tok)]"
proof -
  from assms have "map_of (state_tokens S) (uint (state sys)) = Some tok"
    by (rule map_of_is_SomeI)
  then show ?thesis by (simp add: report_machine_state_map_of)
qed

lemma report_machine_state_unknown:
  assumes "uint (state sys) \<notin> fst ` set (state_tokens S)"
  shows "report_machine_state S sys out = out"
proof -
  from assms have "map_of (state_tokens S) (uint (state sys)) = None"
    by (simp add: map_of_eq_None_iff)
  then show ?thesis by (simp add: report_machine_state_map_of)
qed

lemma integer_bytes_chars: "set (integer_bytes n) \<subseteq> set ''-0123456789''"
proof -
  define D where "D = set ''0123456789''"
  have "set (unsigned_base10_bytes (nat \<bar>n\<bar>)) \<subseteq> D"
    unfolding D_def by (rule unsigned_base10_digits)
  moreover have "set ''-0123456789'' = insert CHR ''-'' D"
    unfolding D_def by simp
  ultimately show ?thesis
    by (auto simp: integer_bytes_def)
qed

lemma no_lt_digits: "CHR ''<'' \<notin> set ''-.0123456789''"
  by simp

lemma integer_bytes_no_lt: "CHR ''<'' \<notin> set (integer_bytes n)"
proof -
  have "set ''-0123456789'' \<subseteq> set ''-.0123456789''" by simp
  with integer_bytes_chars[of n] no_lt_digits show ?thesis by blast
qed

lemma line_number_no_lt: "CHR ''<'' \<notin> set (bytes pf (report_line_number K pb []))"
  using integer_bytes_no_lt
  by (simp add: report_line_number_def Let_def printPgmString_def printInteger_def
      bytes_Cons bytes_Nil)

lemma line_number_pgm_no_lt:
  "PgmString s \<in> set (report_line_number K pb []) \<Longrightarrow> CHR ''<'' \<notin> set s"
  by (auto simp: report_line_number_def Let_def printPgmString_def printInteger_def
      split: if_splits)

text \<open>
  C10: with the machine state one of the seven case labels, the real-time status line
  begins with \<open><\<close> and the token of that state, followed by \<open>,MPos:\<close>. With any other
  state value the line begins with \<open>,MPos:\<close>, no string written contains \<open><\<close>, and
  the line has no \<open><\<close> at all when the rendering of floats writes none. So a state
  that is always one of the seven never takes the branch without the delimiter. The case
  labels of a C \<open>switch\<close> are distinct.
\<close>

theorem report_realtime_status_opening:
  assumes "distinct (map fst (state_tokens S))"
  shows "(\<forall>tok. (uint (state sys), tok) \<in> set (state_tokens S) \<longrightarrow>
            (\<exists>rest. bytes pf (report_realtime_status F K S settings gc sys pb [])
                      = ''<'' @ tok @ '',MPos:'' @ rest))
    \<and> (uint (state sys) \<notin> fst ` set (state_tokens S) \<longrightarrow>
          (\<exists>rest. bytes pf (report_realtime_status F K S settings gc sys pb [])
                    = '',MPos:'' @ rest)
          \<and> (\<forall>s. PgmString s \<in> set (report_realtime_status F K S settings gc sys pb [])
                \<longrightarrow> CHR ''<'' \<notin> set s)
          \<and> ((\<forall>x. CHR ''<'' \<notin> set (pf x)) \<longrightarrow>
                CHR ''<'' \<notin> set (bytes pf (report_realtime_status F K S settings gc sys pb []))))"
proof (intro conjI allI impI)
  fix tok
  assume "(uint (state sys), tok) \<in> set (state_tokens S)"
  with assms have "report_machine_state S sys [] = [PgmString (''<'' @ tok) :: 'a call]"
    using report_machine_state_known[of S sys tok "[]"] by simp
  then show "\<exists>rest. bytes pf (report_realtime_status F K S settings gc sys pb [])
      = ''<'' @ tok @ '',MPos:'' @ rest"
    by (simp add: report_realtime_status_calls report_line_number_append[of K pb "_ # _"]
        bytes_append bytes_Cons bytes_Nil)
next
  assume u: "uint (state sys) \<notin> fst ` set (state_tokens S)"
  hence m: "report_machine_state S sys [] = ([] :: 'a call list)"
    by (rule report_machine_state_unknown)
  show "\<exists>rest. bytes pf (report_realtime_status F K S settings gc sys pb []) = '',MPos:'' @ rest"
    by (simp add: report_realtime_status_calls m report_line_number_append[of K pb "_ # _"]
        bytes_append bytes_Cons bytes_Nil)
  show "CHR ''<'' \<notin> set s"
    if "PgmString s \<in> set (report_realtime_status F K S settings gc sys pb [])" for s
    using that line_number_pgm_no_lt[of s K pb]
    by (auto simp: report_realtime_status_calls m report_line_number_append[of K pb "_ # _"]
        CRLF_def)
  show "CHR ''<'' \<notin> set (bytes pf (report_realtime_status F K S settings gc sys pb []))"
    if "\<forall>x. CHR ''<'' \<notin> set (pf x)"
    using that line_number_no_lt[of pf K pb]
    by (simp add: report_realtime_status_calls m report_line_number_append[of K pb "_ # _"]
        bytes_append bytes_Cons bytes_Nil CRLF_def)
qed


lemma fixed_digits_chars: "set (fixed_digits k n) \<subseteq> set ''0123456789''"
proof -
  have "(char_of (48 + n div 10 ^ j mod 10) :: char) \<in> set ''0123456789''" for j
    by (rule digit_char) simp
  then show ?thesis
    unfolding fixed_digits_def by (simp only: set_map image_subset_iff) blast
qed

lemma float_bytes_chars: "set (float_bytes dp x) \<subseteq> set ''-.0123456789''"
proof -
  define D where "D = set ''0123456789''"
  define a where "a = nat \<lfloor>\<bar>x\<bar> * 10 ^ dp + 1 / 2\<rfloor>"
  have "set (unsigned_base10_bytes (a div 10 ^ dp)) \<subseteq> D"
    unfolding D_def by (rule unsigned_base10_digits)
  moreover have "set (fixed_digits dp (a mod 10 ^ dp)) \<subseteq> D"
    unfolding D_def by (rule fixed_digits_chars)
  moreover have "set ''-.0123456789'' = insert CHR ''-'' (insert CHR ''.'' D)"
    unfolding D_def by simp
  ultimately show ?thesis
    unfolding float_bytes_def Let_def a_def[symmetric] by auto
qed

lemma float_bytes_no_lt: "CHR ''<'' \<notin> set (float_bytes dp x)"
  using float_bytes_chars[of dp x] no_lt_digits by blast

theorem report_realtime_status_opening_witness:
  "distinct (map fst (state_tokens example_state_codes))
   \<and> (\<exists>rest. bytes (float_bytes 3) (report_realtime_status real_ops example_config
          example_state_codes example_settings example_parser_state example_system None [])
        = ''<Run,MPos:'' @ rest)
   \<and> (\<exists>rest. bytes (float_bytes 3) (report_realtime_status real_ops example_config
          example_state_codes example_settings example_parser_state
          (example_system\<lparr>state := 3\<rparr>) None [])
        = '',MPos:'' @ rest)
   \<and> CHR ''<'' \<notin> set (bytes (float_bytes 3) (report_realtime_status real_ops example_config
          example_state_codes example_settings example_parser_state
          (example_system\<lparr>state := 3\<rparr>) None []))"
proof -
  have d: "distinct (map fst (state_tokens example_state_codes))"
    by (simp add: state_tokens_def example_state_codes_def)
  have k: "(uint (state example_system), ''Run'') \<in> set (state_tokens example_state_codes)"
    by (simp add: state_tokens_def example_state_codes_def example_system_def)
  have u: "uint (state (example_system\<lparr>state := 3\<rparr>))
      \<notin> fst ` set (state_tokens example_state_codes)"
    by (simp add: state_tokens_def example_state_codes_def)
  have nf: "\<forall>x. CHR ''<'' \<notin> set (float_bytes 3 x)"
    by (simp add: float_bytes_no_lt)
  note A = report_realtime_status_opening[OF d, where sys = example_system
      and pf = "float_bytes 3" and F = real_ops and K = example_config
      and settings = example_settings and gc = example_parser_state and pb = None,
      THEN conjunct1, rule_format, OF k]
  note B = report_realtime_status_opening[OF d, where sys = "example_system\<lparr>state := 3\<rparr>"
      and pf = "float_bytes 3" and F = real_ops and K = example_config
      and settings = example_settings and gc = example_parser_state and pb = None,
      THEN conjunct2, rule_format, OF u]
  from A have "\<exists>rest. bytes (float_bytes 3) (report_realtime_status real_ops example_config
          example_state_codes example_settings example_parser_state example_system None [])
        = ''<Run,MPos:'' @ rest"
    by simp
  with d B[THEN conjunct1] B[THEN conjunct2, THEN conjunct2, THEN mp, OF nf]
  show ?thesis by blast
qed

text \<open>
  C2: with steps per mm 250, 250 and 200, the report-inches flag off, three decimal
  places, the position 2500, 2500, 2000 steps, the state \<open>STATE_CYCLE\<close> (Run), all
  offsets zero and \<open>USE_LINE_NUMBERS\<close> not defined, the bytes of the real-time status line
  are \<open><Run,MPos:10.000,10.000,10.000,WPos:10.000,10.000,10.000>\r\n\<close>. Every value of
  this computation is exactly representable as a float.
\<close>

theorem report_realtime_status_end_to_end:
  assumes "steps_per_mm settings = [250, 250, 200]"
    and "\<not> report_inches K settings"
    and "decimal_places settings = 3"
    and "position sys = [2500, 2500, 2000]"
    and "uint (state sys) = STATE_CYCLE S"
    and "distinct (map fst (state_tokens S))"
    and "coord_system gc = [0, 0, 0]"
    and "coord_offset gc = [0, 0, 0]"
    and "\<not> USE_LINE_NUMBERS K"
  shows "bytes (float_bytes (decimal_places settings))
      (report_realtime_status real_ops K S settings gc sys pb [])
    = ''<Run,MPos:10.000,10.000,10.000,WPos:10.000,10.000,10.000>'' @ CRLF"
proof -
  from assms(5) have "(uint (state sys), ''Run'') \<in> set (state_tokens S)"
    by (simp add: state_tokens_def)
  with assms(6) have ms: "report_machine_state S sys [] = [PgmString ''<Run'' :: real call]"
    using report_machine_state_known[of S sys "''Run''" "[]"] by simp
  from assms(9) have ln: "report_line_number K pb [] = ([] :: real call list)"
    by (simp add: report_line_number_def)
  have mv: "mpos_value real_ops K settings (position sys) 0 = 10"
    "mpos_value real_ops K settings (position sys) (Suc 0) = 10"
    "mpos_value real_ops K settings (position sys) 2 = 10"
    using assms(1,2,4) by (simp_all add: mpos_value_def real_ops_def)
  have wo: "wpos_offset real_ops K settings gc 0 = 0"
    "wpos_offset real_ops K settings gc (Suc 0) = 0"
    "wpos_offset real_ops K settings gc 2 = 0"
    using assms(2,7,8) by (simp_all add: wpos_offset_def real_ops_def)
  have sub: "f_sub real_ops 10 0 = 10"
    by (simp add: real_ops_def)
  have dp: "decimal_places settings = 3"
    using assms(3) by simp
  show ?thesis
    by (simp add: report_realtime_status_calls report_line_number_append[of K pb "_ # _"]
        ms ln mv wo sub dp bytes_Cons bytes_Nil float_bytes_3_10)
qed

theorem report_realtime_status_end_to_end_witness:
  "bytes (float_bytes 3)
      (report_realtime_status real_ops example_config example_state_codes example_settings
         example_parser_state example_system None [])
    = ''<Run,MPos:10.000,10.000,10.000,WPos:10.000,10.000,10.000>'' @ CRLF"
proof -
  have dp: "decimal_places example_settings = 3"
    by (simp add: example_settings_def)
  have "bytes (float_bytes (decimal_places example_settings))
      (report_realtime_status real_ops example_config example_state_codes example_settings
         example_parser_state example_system None [])
    = ''<Run,MPos:10.000,10.000,10.000,WPos:10.000,10.000,10.000>'' @ CRLF"
    by (rule report_realtime_status_end_to_end)
      (simp_all add: example_settings_def example_config_def example_system_def
        example_state_codes_def example_parser_state_def report_inches_def bit_istrue_def
        state_tokens_def)
  then show ?thesis by (simp only: dp)
qed

section \<open>The coordinate dump\<close>

lemma coord_fold_values:
  "fold (coord_step F K settings coord_data) [0..<N_AXIS] out =
    out @ coord_values F K settings coord_data"
  by (simp add: upt_N_AXIS coord_values_def coord_step_def coord_value_def Let_def
      printFloat_def printPgmString_def)
    (simp add: N_AXIS_def)

lemma coord_loop_Some:
  "eeprom coord_select = Some coord_data \<Longrightarrow>
   coord_loop F K C settings eeprom (coord_select # rest) (out, reads) =
   coord_loop F K C settings eeprom rest
     (out @ slot_line F K settings eeprom coord_select, reads @ [coord_select])"
  by (simp add: settings_read_coord_data_def slot_line_def coord_line_def Let_def
      printPgmString_def print_unsigned_base10_def coord_fold_values)

lemma coord_loop_None:
  "eeprom coord_select = None \<Longrightarrow>
   coord_loop F K C settings eeprom (coord_select # rest) (out, reads) =
   Inl (report_status_message C (word_of_int (STATUS_SETTING_READ_FAIL C)) out,
        reads @ [coord_select])"
  by (simp add: settings_read_coord_data_def)

lemma coord_loop_all_read:
  "\<forall>j\<in>set slots. eeprom j \<noteq> None \<Longrightarrow>
   coord_loop F K C settings eeprom slots (out, reads) =
   Inr (out @ concat (map (slot_line F K settings eeprom) slots), reads @ slots)"
proof (induction slots arbitrary: out reads)
  case Nil
  then show ?case by simp
next
  case (Cons j slots)
  then obtain d where "eeprom j = Some d" by auto
  with Cons show ?case by (simp add: coord_loop_Some del: coord_loop.simps)
qed

lemma coord_loop_read_fail:
  assumes "\<forall>j\<in>set pre. eeprom j \<noteq> None" "eeprom k = None"
  shows "coord_loop F K C settings eeprom (pre @ k # post) (out, reads) =
    Inl (report_status_message C (word_of_int (STATUS_SETTING_READ_FAIL C))
           (out @ concat (map (slot_line F K settings eeprom) pre)),
         reads @ pre @ [k])"
  using assms
proof (induction pre arbitrary: out reads)
  case Nil
  then show ?case by (simp add: coord_loop_None del: coord_loop.simps)
next
  case (Cons j pre)
  then obtain d where "eeprom j = Some d" by auto
  with Cons show ?case by (simp add: coord_loop_Some del: coord_loop.simps)
qed

lemma upt_split_at: "k \<le> n \<Longrightarrow> [0..<Suc n] = [0..<k] @ k # [Suc k..<Suc n]"
proof -
  assume kn: "k \<le> n"
  then obtain d where d: "Suc n = k + d" by (metis le_Suc_eq le_iff_add)
  have "[0..<k + d] = [0..<k] @ [k..<k + d]"
    by (rule upt_add_eq_append) simp
  moreover from kn d have "[k..<k + d] = k # [Suc k..<k + d]"
    by (intro upt_conv_Cons) simp
  ultimately show ?thesis by (simp add: d)
qed

lemma ngc_read_fail_calls:
  assumes "k \<le> SETTING_INDEX_NCOORD" "eeprom k = None" "\<forall>j<k. eeprom j \<noteq> None"
  shows "report_ngc_parameters F K C settings gc sys eeprom (out, reads) =
    (report_status_message C (word_of_int (STATUS_SETTING_READ_FAIL C))
       (out @ concat (map (slot_line F K settings eeprom) [0..<k])),
     reads @ [0..<Suc k])"
proof -
  from assms(3) have "\<forall>j\<in>set [0..<k]. eeprom j \<noteq> None" by simp
  from coord_loop_read_fail[OF this assms(2)] upt_split_at[OF assms(1)]
  show ?thesis by (simp add: report_ngc_parameters_def)
qed

lemma ngc_all_read_calls:
  assumes "\<forall>j\<le>SETTING_INDEX_NCOORD. eeprom j \<noteq> None"
  shows "report_ngc_parameters F K C settings gc sys eeprom (out, reads) =
    (report_probe_parameters F K settings sys
       (out @ concat (map (slot_line F K settings eeprom) [0..<Suc SETTING_INDEX_NCOORD])
        @ PgmString ''[G92:'' # coord_values F K settings (coord_offset gc)),
     reads @ [0..<Suc SETTING_INDEX_NCOORD])"
proof -
  from assms have "\<forall>j\<in>set [0..<Suc SETTING_INDEX_NCOORD]. eeprom j \<noteq> None"
    by (simp add: less_Suc_eq_le)
  from coord_loop_all_read[OF this]
  show ?thesis
    by (simp add: report_ngc_parameters_def Let_def printPgmString_def coord_fold_values)
qed


lemma status_frame_read_fail:
  assumes "distinct (map fst (status_phrases C))"
    and "0 < STATUS_SETTING_READ_FAIL C" and "STATUS_SETTING_READ_FAIL C < 256"
  shows "report_status_message C (word_of_int (STATUS_SETTING_READ_FAIL C)) out =
    out @ [PgmString ''error: '', PgmString ''EEPROM read fail. Using defaults'',
           PgmString CRLF]"
proof -
  let ?code = "word_of_int (STATUS_SETTING_READ_FAIL C) :: uint8_t"
  from assms(2,3) have u: "uint ?code = STATUS_SETTING_READ_FAIL C"
    by (simp add: uint_word_of_int_eq take_bit_int_eq_self)
  with assms(2) have nz: "?code \<noteq> 0"
    by (metis less_irrefl uint_0_eq)
  from u have "(uint ?code, ''EEPROM read fail. Using defaults'') \<in> set (status_phrases C)"
    by (simp add: status_phrases_def)
  from report_status_message_known[OF assms(1) nz this] show ?thesis .
qed

lemma slot_line_calls:
  "eeprom j = Some d \<Longrightarrow>
   slot_line F K settings eeprom j =
    [PgmString ''[G'',
     if j = 6 then PgmString ''28'' else if j = 7 then PgmString ''30''
     else UnsignedBase10 (of_nat (j + 54)),
     PgmString '':'',
     Float (coord_value F K settings d 0), PgmString '','',
     Float (coord_value F K settings d 1), PgmString '','',
     Float (coord_value F K settings d 2), PgmString ('']'' @ CRLF)]"
  by (simp add: slot_line_def coord_line_def coord_values_def upt_N_AXIS)

lemma count_slot_lines:
  "\<forall>j\<in>set slots. eeprom j \<noteq> None \<Longrightarrow>
   count_list (concat (map (slot_line F K settings eeprom) slots)) (PgmString ''[G'')
     = length slots
   \<and> count_list (concat (map (slot_line F K settings eeprom) slots)) (PgmString ''error: '')
     = 0"
proof (induction slots)
  case Nil
  then show ?case by simp
next
  case (Cons j slots)
  then obtain d where "eeprom j = Some d" by auto
  with Cons show ?case by (simp add: slot_line_calls CRLF_def)
qed

text \<open>
  C6: when the read of slot \<open>k\<close> fails after the slots before it were read, the calls of
  \<open>report_ngc_parameters\<close> are the complete lines of the slots before \<open>k\<close> followed by one
  status frame, that of \<open>STATUS_SETTING_READ_FAIL\<close>; the \<open>[G\<close> prefix is written once for
  each slot before \<open>k\<close> and not for \<open>k\<close>; and the slots read are 0 to \<open>k\<close>, none after it.
  The status codes are distinct one-byte values greater than zero.
\<close>

theorem report_ngc_parameters_read_fail:
  assumes "k \<le> SETTING_INDEX_NCOORD" and "eeprom k = None" and "\<forall>j<k. eeprom j \<noteq> None"
    and "distinct (map fst (status_phrases C))"
    and "0 < STATUS_SETTING_READ_FAIL C" and "STATUS_SETTING_READ_FAIL C < 256"
  shows "let (calls, reads) = report_ngc_parameters F K C settings gc sys eeprom ([], [])
    in calls = concat (map (slot_line F K settings eeprom) [0..<k])
         @ [PgmString ''error: '', PgmString ''EEPROM read fail. Using defaults'',
            PgmString CRLF]
     \<and> bytes pf calls = bytes pf (concat (map (slot_line F K settings eeprom) [0..<k]))
         @ ''error: EEPROM read fail. Using defaults'' @ CRLF
     \<and> count_list calls (PgmString ''error: '') = 1
     \<and> count_list calls (PgmString ''[G'') = k
     \<and> reads = [0..<Suc k]"
proof -
  define ls where "ls = concat (map (slot_line F K settings eeprom) [0..<k])"
  have r: "report_ngc_parameters F K C settings gc sys eeprom ([], []) =
      (ls @ [PgmString ''error: '', PgmString ''EEPROM read fail. Using defaults'',
             PgmString CRLF], [0..<Suc k])"
    using ngc_read_fail_calls[OF assms(1-3), of F K C settings gc sys "[]" "[]"]
    by (simp add: status_frame_read_fail[OF assms(4-6)] ls_def)
  from assms(3) have "\<forall>j\<in>set [0..<k]. eeprom j \<noteq> None" by simp
  from count_slot_lines[OF this, of F K settings]
  have c: "count_list ls (PgmString ''[G'') = k" "count_list ls (PgmString ''error: '') = 0"
    by (simp_all add: ls_def)
  show ?thesis
    unfolding r ls_def[symmetric]
    by (simp add: c bytes_append bytes_Cons bytes_Nil) (simp add: CRLF_def)
qed


lemma float_bytes_3_small:
  "float_bytes 3 1 = ''1.000''" "float_bytes 3 2 = ''2.000''" "float_bytes 3 3 = ''3.000''"
proof -
  have u: "unsigned_base10_bytes (Suc 0) = ''1''" "unsigned_base10_bytes 2 = ''2''"
    "unsigned_base10_bytes 3 = ''3''"
    by code_simp+
  show "float_bytes 3 1 = ''1.000''" "float_bytes 3 2 = ''2.000''" "float_bytes 3 3 = ''3.000''"
    by (simp_all add: float_bytes_def u fixed_digits_3_0)
qed

lemma unsigned_base10_bytes_54_55:
  "unsigned_base10_bytes 54 = ''54''" "unsigned_base10_bytes 55 = ''55''"
  by code_simp+

theorem report_ngc_parameters_read_fail_witness:
  "(2::nat) \<le> SETTING_INDEX_NCOORD \<and> example_eeprom_fail 2 = None
   \<and> fst (report_ngc_parameters real_ops example_config example_status_codes example_settings
        example_parser_state example_system example_eeprom_fail ([], [])) =
      [PgmString ''[G'', UnsignedBase10 54, PgmString '':'', Float 1, PgmString '','',
       Float 2, PgmString '','', Float 3, PgmString ('']'' @ CRLF),
       PgmString ''[G'', UnsignedBase10 55, PgmString '':'', Float 1, PgmString '','',
       Float 2, PgmString '','', Float 3, PgmString ('']'' @ CRLF),
       PgmString ''error: '', PgmString ''EEPROM read fail. Using defaults'', PgmString CRLF]
   \<and> bytes (float_bytes 3)
        (fst (report_ngc_parameters real_ops example_config example_status_codes
           example_settings example_parser_state example_system example_eeprom_fail ([], [])))
      = ''[G54:1.000,2.000,3.000]'' @ CRLF @ ''[G55:1.000,2.000,3.000]'' @ CRLF
        @ ''error: EEPROM read fail. Using defaults'' @ CRLF
   \<and> snd (report_ngc_parameters real_ops example_config example_status_codes example_settings
        example_parser_state example_system example_eeprom_fail ([], [])) = [0, 1, 2]"
proof -
  have h: "(2::nat) \<le> SETTING_INDEX_NCOORD" "example_eeprom_fail 2 = None"
    "\<forall>j<2. example_eeprom_fail j \<noteq> None"
    "distinct (map fst (status_phrases example_status_codes))"
    "0 < STATUS_SETTING_READ_FAIL example_status_codes"
    "STATUS_SETTING_READ_FAIL example_status_codes < 256"
    by (simp_all add: SETTING_INDEX_NCOORD_def example_eeprom_fail_def status_phrases_def
        example_status_codes_def)
  have ri: "\<not> report_inches example_config example_settings"
    by (simp add: report_inches_def bit_istrue_def example_settings_def)
  have l: "concat (map (slot_line real_ops example_config example_settings example_eeprom_fail)
        [0..<2]) =
      [PgmString ''[G'', UnsignedBase10 54, PgmString '':'', Float 1, PgmString '','',
       Float 2, PgmString '','', Float 3, PgmString ('']'' @ CRLF),
       PgmString ''[G'', UnsignedBase10 55, PgmString '':'', Float 1, PgmString '','',
       Float 2, PgmString '','', Float 3, PgmString ('']'' @ CRLF)]"
    by (simp add: numeral_2_eq_2 slot_line_calls[of example_eeprom_fail _ "[1, 2, 3]"]
        example_eeprom_fail_def coord_value_def ri)
  have upt: "[0..<3] = [0, Suc 0, 2::nat]"
    by (simp add: numeral_3_eq_3 numeral_2_eq_2)
  from report_ngc_parameters_read_fail[OF h, of real_ops example_config example_settings
      example_parser_state example_system "float_bytes 3"] h(1,2)
  show ?thesis
    by (simp add: case_prod_beta l upt bytes_Cons bytes_Nil float_bytes_3_small
        unsigned_base10_bytes_54_55 del: upt_Suc)
qed

lemma status_phrase_not_tail:
  "(c, p) \<in> set (status_phrases C) \<Longrightarrow> p \<noteq> ''[G92:'' \<and> p \<noteq> ''[Probe:''"
  by (auto simp: status_phrases_def)

lemma status_message_not_tail:
  assumes "PgmString ''[G92:'' \<notin> set out" "PgmString ''[Probe:'' \<notin> set out"
  shows "PgmString ''[G92:'' \<notin> set (report_status_message C code out)
    \<and> PgmString ''[Probe:'' \<notin> set (report_status_message C code out)"
proof (cases "map_of (status_phrases C) (uint code)")
  case None
  with assms show ?thesis
    by (simp add: report_status_message_map_of CRLF_def)
next
  case (Some p)
  hence "(uint code, p) \<in> set (status_phrases C)" by (rule map_of_SomeD)
  hence "p \<noteq> ''[G92:'' \<and> p \<noteq> ''[Probe:''" by (rule status_phrase_not_tail)
  with Some assms show ?thesis
    by (auto simp: report_status_message_map_of CRLF_def)
qed

lemma slot_lines_not_tail:
  "PgmString ''[G92:'' \<notin> set (concat (map (slot_line F K settings eeprom) slots))
   \<and> PgmString ''[Probe:'' \<notin> set (concat (map (slot_line F K settings eeprom) slots))"
proof (induction slots)
  case Nil
  then show ?case by simp
next
  case (Cons j slots)
  show ?case
  proof (cases "eeprom j")
    case None
    with Cons show ?thesis by (simp add: slot_line_def)
  next
    case (Some d)
    with Cons show ?thesis by (simp add: slot_line_calls CRLF_def)
  qed
qed

lemma report_probe_parameters_calls:
  "report_probe_parameters F K settings sys out =
    out @ [PgmString ''[Probe:'',
           Float (mpos_value F K settings (probe_position sys) 0), PgmString '','',
           Float (mpos_value F K settings (probe_position sys) 1), PgmString '','',
           Float (mpos_value F K settings (probe_position sys) 2), PgmString ('']'' @ CRLF)]"
  by (simp add: report_probe_parameters_def upt_N_AXIS probe_step_def mpos_value_def Let_def
      printPgmString_def printFloat_def)
    (simp add: N_AXIS_def)

lemma first_failing_slot:
  fixes eeprom :: "nat \<Rightarrow> 'a option"
  assumes "\<not> (\<forall>j\<le>n. eeprom j \<noteq> None)"
  shows "\<exists>k\<le>n. eeprom k = None \<and> (\<forall>j<k. eeprom j \<noteq> None)"
proof -
  from assms obtain m where m: "m \<le> n" "eeprom m = None" by auto
  let ?P = "\<lambda>i. eeprom i = None"
  define k where "k = (LEAST i. ?P i)"
  from m(2) have "?P k" unfolding k_def by (rule LeastI[of ?P])
  moreover from m(2) have "k \<le> m" unfolding k_def by (rule Least_le[of ?P])
  moreover have "\<forall>j<k. eeprom j \<noteq> None"
    unfolding k_def using not_less_Least[of _ ?P] by blast
  ultimately show ?thesis using m(1) by (intro exI[of _ k]) simp
qed

text \<open>
  C9: \<open>report_ngc_parameters\<close> makes the calls \<open>printPgmString("[G92:")\<close> and
  \<open>printPgmString("[Probe:")\<close> exactly when every coordinate slot can be read. When the
  read of a slot fails, its calls are the lines of the slots before the first failing one
  and then those of \<open>report_status_message\<close>: it returns right after the error frame.
  When every slot is read, the slot lines are followed by the \<open>G92\<close> line and the probe
  frame.
\<close>

theorem report_ngc_parameters_g92_probe:
  "(PgmString ''[G92:'' \<in> set (fst (report_ngc_parameters F K C settings gc sys eeprom ([], [])))
      \<longleftrightarrow> (\<forall>j\<le>SETTING_INDEX_NCOORD. eeprom j \<noteq> None))
   \<and> (PgmString ''[Probe:'' \<in> set (fst (report_ngc_parameters F K C settings gc sys eeprom ([], [])))
      \<longleftrightarrow> (\<forall>j\<le>SETTING_INDEX_NCOORD. eeprom j \<noteq> None))
   \<and> ((\<exists>k\<le>SETTING_INDEX_NCOORD. eeprom k = None) \<longrightarrow>
        (\<exists>k\<le>SETTING_INDEX_NCOORD. eeprom k = None \<and> (\<forall>j<k. eeprom j \<noteq> None)
           \<and> fst (report_ngc_parameters F K C settings gc sys eeprom ([], [])) =
               report_status_message C (word_of_int (STATUS_SETTING_READ_FAIL C))
                 (concat (map (slot_line F K settings eeprom) [0..<k]))))
   \<and> ((\<forall>j\<le>SETTING_INDEX_NCOORD. eeprom j \<noteq> None) \<longrightarrow>
        fst (report_ngc_parameters F K C settings gc sys eeprom ([], [])) =
          concat (map (slot_line F K settings eeprom) [0..<Suc SETTING_INDEX_NCOORD])
          @ PgmString ''[G92:'' # coord_values F K settings (coord_offset gc)
          @ report_probe_parameters F K settings sys [])"
proof (cases "\<forall>j\<le>SETTING_INDEX_NCOORD. eeprom j \<noteq> None")
  case True
  have r: "fst (report_ngc_parameters F K C settings gc sys eeprom ([], [])) =
      concat (map (slot_line F K settings eeprom) [0..<Suc SETTING_INDEX_NCOORD])
      @ PgmString ''[G92:'' # coord_values F K settings (coord_offset gc)
      @ report_probe_parameters F K settings sys []"
    using ngc_all_read_calls[OF True, of F K C settings gc sys "[]" "[]"]
    by (simp add: report_probe_parameters_calls)
  have g92: "PgmString ''[G92:''
      \<in> set (fst (report_ngc_parameters F K C settings gc sys eeprom ([], [])))"
    unfolding r by simp
  have probe: "PgmString ''[Probe:''
      \<in> set (fst (report_ngc_parameters F K C settings gc sys eeprom ([], [])))"
    unfolding r by (simp add: report_probe_parameters_calls)
  from True have "\<not> (\<exists>k\<le>SETTING_INDEX_NCOORD. eeprom k = None)" by simp
  with True r g92 probe show ?thesis by blast
next
  case False
  from first_failing_slot[OF False] obtain k where k: "k \<le> SETTING_INDEX_NCOORD"
    "eeprom k = None" "\<forall>j<k. eeprom j \<noteq> None" by blast
  have r: "fst (report_ngc_parameters F K C settings gc sys eeprom ([], [])) =
      report_status_message C (word_of_int (STATUS_SETTING_READ_FAIL C))
        (concat (map (slot_line F K settings eeprom) [0..<k]))"
    using ngc_read_fail_calls[OF k, of F K C settings gc sys "[]" "[]"]
    by simp
  have "PgmString ''[G92:'' \<notin> set (fst (report_ngc_parameters F K C settings gc sys eeprom ([], [])))
    \<and> PgmString ''[Probe:'' \<notin> set (fst (report_ngc_parameters F K C settings gc sys eeprom ([], [])))"
    unfolding r using slot_lines_not_tail[of F K settings eeprom "[0..<k]"]
    by (intro status_message_not_tail) simp_all
  with False r k show ?thesis by blast
qed


lemma unsigned_base10_bytes_56_59:
  "unsigned_base10_bytes 56 = ''56''" "unsigned_base10_bytes 57 = ''57''"
  "unsigned_base10_bytes 58 = ''58''" "unsigned_base10_bytes 59 = ''59''"
  by code_simp+

lemma float_bytes_3_0: "float_bytes 3 0 = ''0.000''"
  by (simp add: float_bytes_def unsigned_base10_bytes_def fixed_digits_3_0)

theorem report_ngc_parameters_g92_probe_witness:
  "PgmString ''[G92:'' \<notin> set (fst (report_ngc_parameters real_ops example_config
        example_status_codes example_settings example_parser_state example_system
        example_eeprom_fail ([], [])))
   \<and> PgmString ''[Probe:'' \<notin> set (fst (report_ngc_parameters real_ops example_config
        example_status_codes example_settings example_parser_state example_system
        example_eeprom_fail ([], [])))
   \<and> bytes (float_bytes 3) (fst (report_ngc_parameters real_ops example_config
        example_status_codes example_settings example_parser_state example_system
        example_eeprom_ok ([], []))) =
      ''[G54:1.000,2.000,3.000]'' @ CRLF @ ''[G55:1.000,2.000,3.000]'' @ CRLF
      @ ''[G56:1.000,2.000,3.000]'' @ CRLF @ ''[G57:1.000,2.000,3.000]'' @ CRLF
      @ ''[G58:1.000,2.000,3.000]'' @ CRLF @ ''[G59:1.000,2.000,3.000]'' @ CRLF
      @ ''[G28:1.000,2.000,3.000]'' @ CRLF @ ''[G30:1.000,2.000,3.000]'' @ CRLF
      @ ''[G92:0.000,0.000,0.000]'' @ CRLF @ ''[Probe:0.000,0.000,0.000]'' @ CRLF"
proof -
  have f: "\<not> (\<forall>j\<le>SETTING_INDEX_NCOORD. example_eeprom_fail j \<noteq> None)"
  proof
    assume "\<forall>j\<le>SETTING_INDEX_NCOORD. example_eeprom_fail j \<noteq> None"
    moreover have "(2::nat) \<le> SETTING_INDEX_NCOORD" by (simp add: SETTING_INDEX_NCOORD_def)
    ultimately have "example_eeprom_fail 2 \<noteq> None" by blast
    then show False by (simp add: example_eeprom_fail_def)
  qed
  have ok: "\<forall>j\<le>SETTING_INDEX_NCOORD. example_eeprom_ok j \<noteq> None"
    by (simp add: example_eeprom_ok_def)
  note A = report_ngc_parameters_g92_probe[of real_ops example_config example_status_codes
      example_settings example_parser_state example_system example_eeprom_fail]
  note B = report_ngc_parameters_g92_probe[of real_ops example_config example_status_codes
      example_settings example_parser_state example_system example_eeprom_ok,
      THEN conjunct2, THEN conjunct2, THEN conjunct2, THEN mp, OF ok]
  have ri: "\<not> report_inches example_config example_settings"
    by (simp add: report_inches_def bit_istrue_def example_settings_def)
  have sp: "steps_per_mm example_settings = [250, 250, 200]"
    by (simp add: example_settings_def)
  have upt: "[0..<Suc SETTING_INDEX_NCOORD] = [0, 1, 2, 3, 4, 5, 6, 7]"
    by (simp add: SETTING_INDEX_NCOORD_def upt_conv_Cons)
  have "bytes (float_bytes 3) (fst (report_ngc_parameters real_ops example_config
        example_status_codes example_settings example_parser_state example_system
        example_eeprom_ok ([], []))) =
      ''[G54:1.000,2.000,3.000]'' @ CRLF @ ''[G55:1.000,2.000,3.000]'' @ CRLF
      @ ''[G56:1.000,2.000,3.000]'' @ CRLF @ ''[G57:1.000,2.000,3.000]'' @ CRLF
      @ ''[G58:1.000,2.000,3.000]'' @ CRLF @ ''[G59:1.000,2.000,3.000]'' @ CRLF
      @ ''[G28:1.000,2.000,3.000]'' @ CRLF @ ''[G30:1.000,2.000,3.000]'' @ CRLF
      @ ''[G92:0.000,0.000,0.000]'' @ CRLF @ ''[Probe:0.000,0.000,0.000]'' @ CRLF"
    unfolding B upt
    by (simp add: slot_line_calls[of example_eeprom_ok _ "[1, 2, 3]"] example_eeprom_ok_def
        coord_value_def ri coord_values_def upt_N_AXIS report_probe_parameters_calls
        mpos_value_def real_ops_def example_parser_state_def example_system_def sp
        bytes_append bytes_Cons bytes_Nil float_bytes_3_small float_bytes_3_0
        unsigned_base10_bytes_54_55 unsigned_base10_bytes_56_59)
  with A f show ?thesis by blast
qed


section \<open>The settings dump\<close>





















end
